theory Spec2Isabelle
  imports Complex_Main "HOL-Library.AList"
begin

section \<open>SKLearnForQlik: the model cache, the store and the request handlers\<close>

text \<open>
  A shallow embedding of \<^verbatim>\<open>core/_sklearn.py\<close>, class \<^verbatim>\<open>SKLearnForQlik\<close>.

  Python objects that are shared and mutated (the \<^verbatim>\<open>PersistentModel\<close> instances held by the
  class-level \<^verbatim>\<open>model_cache\<close>, and the pandas frames they point to) live in an explicit
  store, addressed by natural numbers. A handler is a function from the state before the
  call to the outcome (an exception or a response) and the state after it; the state
  after an exception keeps every mutation made before the exception was raised.

  What the handlers call outside the class (scikit-learn, the pandas constructor, the
  helpers of \<^verbatim>\<open>_utils\<close>, \<^verbatim>\<open>locale\<close>, string formatting) is a field of the record
  \<open>env\<close>: the theorems hold for every such environment. Debug logging
  (\<^verbatim>\<open>_print_log\<close>) and the table description sent to the caller
  (\<^verbatim>\<open>_send_table_description\<close>) only write to the terminal, a log file and the transport;
  they are left out.
\<close>

subsection \<open>Exceptions and values\<close>

datatype pyval = VStr string | VInt int | VFloat real | VBool bool | VNone

datatype error =
    KeyError pyval
  | IndexError
  | AttributeError string
  | TypeError
  | SchemaError
  | NotFoundError string
  | LibraryError string

type_synonym kwargs = "(string \<times> pyval) list"

definition bindE :: "error + 'a \<Rightarrow> ('a \<Rightarrow> error + 'b) \<Rightarrow> error + 'b" where
  "bindE r f = (case r of Inl e \<Rightarrow> Inl e | Inr a \<Rightarrow> f a)"

definition attr :: "string \<Rightarrow> 'a option \<Rightarrow> error + 'a" where
  \<comment> \<open>Reading an attribute that was never assigned raises AttributeError.\<close>
  "attr a v = (case v of None \<Rightarrow> Inl (AttributeError a) | Some x \<Rightarrow> Inr x)"

definition as_str :: "pyval \<Rightarrow> error + string" where
  "as_str v = (case v of VStr s \<Rightarrow> Inr s | _ \<Rightarrow> Inl TypeError)"

subsection \<open>Data frames\<close>

text \<open>
  A frame is its column names and its rows; a row carries its index label and its cells
  in column order. \<open>cell_at\<close> reads a cell, \<open>put_cell\<close> writes one (a row that is
  too short is filled with None first, as pandas fills a missing cell).
\<close>

record dataframe =
  df_columns :: "pyval list"
  df_rows :: "(pyval \<times> pyval list) list"

definition cell_at :: "pyval list \<Rightarrow> nat \<Rightarrow> pyval" where
  "cell_at r i = (if i < length r then r ! i else VNone)"

definition put_cell :: "nat \<Rightarrow> pyval \<Rightarrow> pyval list \<Rightarrow> pyval list" where
  "put_cell p v r = take p r @ replicate (p - length r) VNone @ [v] @ drop (Suc p) r"

fun col_pos :: "pyval \<Rightarrow> pyval list \<Rightarrow> nat option" where
  "col_pos c [] = None"
| "col_pos c (x # xs) = (if x = c then Some 0 else map_option Suc (col_pos c xs))"

definition df_index :: "dataframe \<Rightarrow> pyval list" where
  "df_index df = map fst (df_rows df)"

definition get_column :: "dataframe \<Rightarrow> pyval \<Rightarrow> error + pyval list" where
  \<comment> \<open>\<^verbatim>\<open>df[c]\<close>, \<^verbatim>\<open>df.loc[:, c]\<close>: KeyError when there is no such column.\<close>
  "get_column df c =
     (case col_pos c (df_columns df) of
        None \<Rightarrow> Inl (KeyError c)
      | Some i \<Rightarrow> Inr (map (\<lambda>(l, r). cell_at r i) (df_rows df)))"

definition set_column :: "dataframe \<Rightarrow> pyval \<Rightarrow> pyval list \<Rightarrow> dataframe" where
  \<comment> \<open>\<^verbatim>\<open>df[c] = pd.Series(vs, index=df.index)\<close>: an existing column is overwritten, a new
      one is added last. The frame object itself is changed.\<close>
  "set_column df c vs =
     (case col_pos c (df_columns df) of
        Some i \<Rightarrow> df\<lparr>df_rows := map2 (\<lambda>(l, r) v. (l, put_cell i v r)) (df_rows df) vs\<rparr>
      | None \<Rightarrow>
          df\<lparr>df_columns := df_columns df @ [c],
             df_rows := map2 (\<lambda>(l, r) v. (l, put_cell (length (df_columns df)) v r)) (df_rows df) vs\<rparr>)"

fun col_positions :: "pyval list \<Rightarrow> pyval list \<Rightarrow> error + nat list" where
  "col_positions [] cols = Inr []"
| "col_positions (c # cs) cols =
     (case col_pos c cols of
        None \<Rightarrow> Inl (KeyError c)
      | Some i \<Rightarrow> (case col_positions cs cols of Inl e \<Rightarrow> Inl e | Inr is \<Rightarrow> Inr (i # is)))"

definition select_columns :: "dataframe \<Rightarrow> pyval list \<Rightarrow> error + dataframe" where
  \<comment> \<open>\<^verbatim>\<open>df[[c1, ..., cn]]\<close>: a new frame with these columns, in this order.\<close>
  "select_columns df cs =
     (case col_positions cs (df_columns df) of
        Inl e \<Rightarrow> Inl e
      | Inr is \<Rightarrow>
          Inr \<lparr>df_columns = cs,
               df_rows = map (\<lambda>(l, r). (l, map (cell_at r) is)) (df_rows df)\<rparr>)"

definition select_rows :: "dataframe \<Rightarrow> pyval \<Rightarrow> (pyval \<Rightarrow> bool) \<Rightarrow> error + dataframe" where
  \<comment> \<open>\<^verbatim>\<open>df.loc[mask]\<close> for a mask computed from column \<open>c\<close>: a new frame with the rows
      whose cell in \<open>c\<close> satisfies \<open>p\<close>.\<close>
  "select_rows df c p =
     (case col_pos c (df_columns df) of
        None \<Rightarrow> Inl (KeyError c)
      | Some i \<Rightarrow> Inr (df\<lparr>df_rows := filter (\<lambda>(l, r). p (cell_at r i)) (df_rows df)\<rparr>))"

definition set_index :: "dataframe \<Rightarrow> pyval \<Rightarrow> error + dataframe" where
  \<comment> \<open>\<^verbatim>\<open>df.set_index(c, drop=False, inplace=True)\<close>\<close>
  "set_index df c =
     (case col_pos c (df_columns df) of
        None \<Rightarrow> Inl (KeyError c)
      | Some i \<Rightarrow> Inr (df\<lparr>df_rows := map (\<lambda>(l, r). (cell_at r i, r)) (df_rows df)\<rparr>))"

definition loc0 :: "dataframe \<Rightarrow> pyval \<Rightarrow> error + pyval" where
  \<comment> \<open>\<^verbatim>\<open>df.loc[0, c]\<close> on a frame that still has its default index 0, 1, ...\<close>
  "loc0 df c =
     (case df_rows df of
        [] \<Rightarrow> Inl (KeyError (VInt 0))
      | (l, r) # rest \<Rightarrow>
          (case col_pos c (df_columns df) of
             None \<Rightarrow> Inl (KeyError c)
           | Some i \<Rightarrow> Inr (cell_at r i)))"

subsection \<open>Models, snapshots and the state of the process\<close>

text \<open>
  The attributes of a \<^verbatim>\<open>PersistentModel\<close>. An attribute that some call path leaves
  unassigned is an option; \<open>features_df\<close> is the address of the frame object. The type
  \<open>'o\<close> stands for the objects of scikit-learn and for the \<^verbatim>\<open>Preprocessor\<close>; a pipeline
  is its list of named steps.
\<close>

record 'o model =
  m_name :: string
  overwrite :: bool
  debug :: bool
  test_size :: real
  random_state :: int
  compress :: int
  retain_data :: bool
  dim_reduction :: bool
  scaler :: "string option"
  missing :: "string option"
  scale_hashed :: "bool option"
  scaler_kwargs :: "kwargs option"
  estimator :: "string option"
  estimator_kwargs :: "kwargs option"
  reduction :: "string option"
  dim_reduction_args :: "kwargs option"
  dim_reduction_kwargs :: "kwargs option"
  features_df :: "nat option"
  retained :: "(dataframe \<times> dataframe \<times> dataframe \<times> dataframe) option"
  pipe :: "(string \<times> 'o) list option"
  estimation_step :: "nat option"
  score :: "real option"
  state_timestamp :: "real option"

record 'o snapshot =
  snap_model :: "'o model"
  snap_features :: "dataframe option"

record 'o state =
  models :: "nat \<Rightarrow> 'o model"
  frames :: "nat \<Rightarrow> dataframe"
  next_model :: nat
  next_frame :: nat
  model_cache :: "(string \<times> nat) list"
  disk :: "string \<Rightarrow> 'o snapshot option"

type_synonym ('o, 'a) action = "'o state \<Rightarrow> (error + 'a) \<times> 'o state"

definition returnS :: "'a \<Rightarrow> ('o, 'a) action" where
  "returnS a = (\<lambda>s. (Inr a, s))"

definition liftE :: "error + 'a \<Rightarrow> ('o, 'a) action" where
  "liftE r = (\<lambda>s. (r, s))"

definition bindS :: "('o, 'a) action \<Rightarrow> ('a \<Rightarrow> ('o, 'b) action) \<Rightarrow> ('o, 'b) action" where
  "bindS f g = (\<lambda>s. case f s of (Inl e, s1) \<Rightarrow> (Inl e, s1) | (Inr a, s1) \<Rightarrow> g a s1)"

definition new_model :: "'o model \<Rightarrow> 'o state \<Rightarrow> nat \<times> 'o state" where
  "new_model m s =
     (next_model s, s\<lparr>models := (models s)(next_model s := m), next_model := Suc (next_model s)\<rparr>)"

definition new_frame :: "dataframe \<Rightarrow> 'o state \<Rightarrow> nat \<times> 'o state" where
  "new_frame df s =
     (next_frame s, s\<lparr>frames := (frames s)(next_frame s := df), next_frame := Suc (next_frame s)\<rparr>)"

subsection \<open>The model cache\<close>

definition cache_limit :: nat where
  "cache_limit = 3"

definition update_cache :: "nat \<Rightarrow> 'o state \<Rightarrow> 'o state" where
  \<comment> \<open>\<^verbatim>\<open>_update_cache\<close>, with \<^verbatim>\<open>self.model\<close> the object at \<open>r\<close>. \<^verbatim>\<open>popitem(last=False)\<close>
      drops the first (oldest) item; it is only reached with \<open>cache_limit\<close> items in the
      cache, so never on an empty one.\<close>
  "update_cache r s =
     (let name = m_name (models s r);
          c1 = (if cache_limit = length (model_cache s) then tl (model_cache s) else model_cache s);
          c2 = (if name \<in> set (map fst c1) then AList.delete name c1 else c1);
          c3 = AList.update name r c2
      in s\<lparr>model_cache := c3\<rparr>)"

definition load :: "string \<Rightarrow> ('o, nat) action" where
  \<comment> \<open>Modelled from the spec: \<^verbatim>\<open>PersistentModel.load\<close> is in \<^verbatim>\<open>_machine_learning\<close>, which
      is not among the sources. It rebuilds a model from the snapshot of that name, as
      new objects, and fails with NotFoundError when there is no snapshot.\<close>
  "load name s =
     (case disk s name of
        None \<Rightarrow> (Inl (NotFoundError name), s)
      | Some snap \<Rightarrow>
          (case snap_features snap of
             None \<Rightarrow>
               (let (r, s1) = new_model ((snap_model snap)\<lparr>features_df := None\<rparr>) s
                in (Inr r, s1))
           | Some df \<Rightarrow>
               (let (d, s1) = new_frame df s;
                    (r, s2) = new_model ((snap_model snap)\<lparr>features_df := Some d\<rparr>) s1
                in (Inr r, s2))))"

definition save :: "real \<Rightarrow> nat \<Rightarrow> string \<Rightarrow> int \<Rightarrow> ('o, nat) action" where
  \<comment> \<open>Modelled from the spec: \<^verbatim>\<open>PersistentModel.save\<close> is in \<^verbatim>\<open>_machine_learning\<close>, which
      is not among the sources. It writes a snapshot of the whole model (its frame
      included) under the name and returns the model; the handlers read
      \<^verbatim>\<open>state_timestamp\<close> from the model it returns, so it stamps the model with the
      time \<open>t\<close> of the call.\<close>
  "save t r name level s =
     (let m = (models s r)\<lparr>state_timestamp := Some t\<rparr>;
          snap = \<lparr>snap_model = m, snap_features = map_option (frames s) (features_df m)\<rparr>
      in (Inr r, s\<lparr>models := (models s)(r := m), disk := (disk s)(name := Some snap)\<rparr>))"

definition get_model :: "string \<Rightarrow> ('o, nat) action" where
  \<comment> \<open>\<^verbatim>\<open>_get_model\<close>, with \<^verbatim>\<open>self.model.name\<close> the given name; the result is the object
      \<^verbatim>\<open>self.model\<close> is bound to afterwards.\<close>
  "get_model name s =
     (case map_of (model_cache s) name of
        Some r \<Rightarrow> (Inr r, s)
      | None \<Rightarrow>
          (case load name s of
             (Inl e, s1) \<Rightarrow> (Inl e, s1)
           | (Inr r, s1) \<Rightarrow> (Inr r, update_cache r s1)))"

definition cache_names :: "'o state \<Rightarrow> string list" where
  "cache_names s = map fst (model_cache s)"

subsection \<open>What the handlers call outside the class\<close>

record 'o env =
  get_kwargs :: "string \<Rightarrow> error + (string \<times> string) list"
  get_kwargs_by_type :: "(string \<times> string) list \<Rightarrow> error + kwargs"
  convert_types :: "dataframe \<Rightarrow> dataframe \<Rightarrow> error + dataframe"
  Preprocessor :: "dataframe \<Rightarrow> bool \<Rightarrow> string \<Rightarrow> string \<Rightarrow> kwargs \<Rightarrow> error + 'o"
  atof :: "string \<Rightarrow> error + real"
  atoi :: "string \<Rightarrow> error + int"
  lower :: "string \<Rightarrow> string"
  clock :: real
  strftime :: "real \<Rightarrow> string"
  str_of :: "pyval \<Rightarrow> string"
  format_3f :: "pyval \<Rightarrow> string"
  make_frame :: "pyval list list \<Rightarrow> pyval list \<Rightarrow> pyval list \<Rightarrow> error + dataframe"
  join_drop :: "dataframe \<Rightarrow> dataframe \<Rightarrow> pyval \<Rightarrow> error + dataframe"
  train_test_split ::
    "dataframe \<Rightarrow> dataframe \<Rightarrow> real \<Rightarrow> int \<Rightarrow> error + (dataframe \<times> dataframe \<times> dataframe \<times> dataframe)"
  construct :: "string \<Rightarrow> kwargs \<Rightarrow> error + 'o"
  pipeline_insert :: "(string \<times> 'o) list \<Rightarrow> nat \<Rightarrow> string \<times> 'o \<Rightarrow> error + (string \<times> 'o) list"
  pipe_fit :: "(string \<times> 'o) list \<Rightarrow> dataframe \<Rightarrow> dataframe \<Rightarrow> error + (string \<times> 'o) list"
  pipe_score :: "(string \<times> 'o) list \<Rightarrow> dataframe \<Rightarrow> dataframe \<Rightarrow> error + real"
  pipe_predict :: "(string \<times> 'o) list \<Rightarrow> dataframe \<Rightarrow> error + pyval list"
  pipe_predict_proba :: "(string \<times> 'o) list \<Rightarrow> dataframe \<Rightarrow> error + pyval list list"
  pipe_predict_log_proba :: "(string \<times> 'o) list \<Rightarrow> dataframe \<Rightarrow> error + pyval list list"
  classes_of :: "'o \<Rightarrow> error + pyval list"

text \<open>
  \<open>get_kwargs\<close>, \<open>get_kwargs_by_type\<close> and \<open>convert_types\<close> are functions of
  \<^verbatim>\<open>_utils\<close>, \<open>Preprocessor\<close> is the class of \<^verbatim>\<open>_machine_learning\<close>; neither module is
  among the sources. \<open>atof\<close>, \<open>atoi\<close> are those of \<^verbatim>\<open>locale\<close>, \<open>lower\<close> is
  \<^verbatim>\<open>str.lower\<close>, \<open>clock\<close> the time of the call, \<open>str_of\<close> and \<open>format_3f\<close> what
  \<^verbatim>\<open>str.format\<close> does for \<^verbatim>\<open>{0}\<close> and \<^verbatim>\<open>{1:.3f}\<close>. \<open>make_frame\<close> is
  \<^verbatim>\<open>pd.DataFrame(data, columns=..., index=...)\<close> on a list of rows, \<open>join_drop a b c\<close> is
  \<^verbatim>\<open>a.join(b).drop([c], axis=1)\<close>. \<open>construct\<close> calls a class of scikit-learn, given by
  its name, with keyword arguments; the \<open>pipe_\<close> functions and \<open>pipeline_insert\<close> are
  the methods of a \<^verbatim>\<open>Pipeline\<close>, given by its steps; \<open>classes_of\<close> reads the attribute
  \<^verbatim>\<open>classes_\<close> of a fitted classifier.
\<close>

fun split_on :: "char \<Rightarrow> string \<Rightarrow> string list" where
  \<comment> \<open>\<^verbatim>\<open>str.split(sep)\<close> for a separator of one character\<close>
  "split_on c [] = [[]]"
| "split_on c (x # xs) =
     (if x = c then [] # split_on c xs
      else (case split_on c xs of [] \<Rightarrow> [[x]] | y # ys \<Rightarrow> (x # y) # ys))"

definition cell_matches :: "string \<Rightarrow> pyval \<Rightarrow> bool" where
  "cell_matches t v =
     (case v of VStr s \<Rightarrow> t = ''strData'' | VFloat x \<Rightarrow> t = ''numData'' | _ \<Rightarrow> False)"

definition request_df :: "pyval list list \<Rightarrow> string list \<Rightarrow> string list \<Rightarrow> error + dataframe" where
  \<comment> \<open>Modelled from the spec: \<^verbatim>\<open>utils.request_df\<close> is in \<^verbatim>\<open>_utils\<close>, which is not among
      the sources. It decodes the rows of the request by the row schema of the operation;
      a row that does not match the schema is a SchemaError. The frame has the given
      column headers and the default index 0, 1, ...\<close>
  "request_df request row_template col_headers =
     (if list_all (list_all2 cell_matches row_template) request
      then Inr \<lparr>df_columns = map VStr col_headers,
                df_rows = zip (map (\<lambda>i. VInt (int i)) [0..<length request]) request\<rparr>
      else Inl SchemaError)"

definition loc0_str :: "dataframe \<Rightarrow> string \<Rightarrow> error + string" where
  "loc0_str df c = bindE (loc0 df (VStr c)) as_str"

definition message_frame :: "string list \<Rightarrow> pyval list \<Rightarrow> dataframe" where
  \<comment> \<open>\<^verbatim>\<open>pd.DataFrame([[...]], columns=[...])\<close>: one row\<close>
  "message_frame cols cells = \<lparr>df_columns = map VStr cols, df_rows = [(VInt 0, cells)]\<rparr>"

definition timestamp_text :: "'o env \<Rightarrow> 'o model \<Rightarrow> error + string" where
  "timestamp_text env m = bindE (attr ''state_timestamp'' (state_timestamp m)) (\<lambda>t. Inr (strftime env t))"

subsection \<open>The registry of algorithms\<close>

definition algorithms :: "string list" where
  "algorithms =
     [''DummyClassifier'', ''DummyRegressor'', ''AdaBoostClassifier'', ''AdaBoostRegressor'',
      ''BaggingClassifier'', ''BaggingRegressor'', ''ExtraTreesClassifier'', ''ExtraTreesRegressor'',
      ''GradientBoostingClassifier'', ''GradientBoostingRegressor'', ''RandomForestClassifier'',
      ''RandomForestRegressor'', ''VotingClassifier'', ''GaussianProcessClassifier'',
      ''GaussianProcessRegressor'', ''LinearRegression'', ''LogisticRegression'',
      ''LogisticRegressionCV'', ''PassiveAggressiveClassifier'', ''PassiveAggressiveRegressor'',
      ''Perceptron'', ''RANSACRegressor'', ''Ridge'', ''RidgeClassifier'', ''RidgeCV'',
      ''RidgeClassifierCV'', ''SGDClassifier'', ''SGDRegressor'', ''TheilSenRegressor'',
      ''BernoulliNB'', ''GaussianNB'', ''MultinomialNB'', ''KNeighborsClassifier'',
      ''KNeighborsRegressor'', ''RadiusNeighborsClassifier'', ''RadiusNeighborsRegressor'',
      ''BernoulliRBM'', ''MLPClassifier'', ''MLPRegressor'', ''LinearSVC'', ''LinearSVR'', ''NuSVC'',
      ''NuSVR'', ''SVC'', ''SVR'', ''DecisionTreeClassifier'', ''DecisionTreeRegressor'',
      ''ExtraTreeClassifier'', ''ExtraTreeRegressor'']"

definition decomposers :: "string list" where
  "decomposers = [''PCA'', ''KernelPCA'', ''IncrementalPCA'', ''TruncatedSVD'']"

definition registry_lookup :: "string list \<Rightarrow> string \<Rightarrow> error + string" where
  \<comment> \<open>\<^verbatim>\<open>self.algorithms[k]\<close>, \<^verbatim>\<open>self.decomposers[k]\<close>: every key of these dictionaries is
      the name of the class it maps to; a missing key is a KeyError carrying the key.\<close>
  "registry_lookup reg k = (if k \<in> set reg then Inr k else Inl (KeyError (VStr k)))"

subsection \<open>Setting the parameters of a model\<close>

definition handler_attributes :: "string list" where
  \<comment> \<open>every name bound on a \<^verbatim>\<open>SKLearnForQlik\<close> object or its class\<close>
  "handler_attributes =
     [''log_no'', ''model_cache'', ''cache_limit'',
      ''request'', ''context'', ''path'', ''logfile'', ''algorithms'', ''decomposers'',
      ''request_df'', ''model'', ''exec_params'', ''response'', ''table'',
      ''X_train'', ''X_test'', ''y_train'', ''y_test'', ''X'', ''y'',
      ''list_models'', ''setup'', ''set_features'', ''get_features'', ''fit'', ''predict'',
      ''get_features_expression'', ''_set_params'', ''_send_table_description'', ''_get_model'',
      ''_update_cache'', ''_print_log'', ''_print_exception'']"

definition print_exception :: "string \<Rightarrow> error + unit" where
  \<comment> \<open>\<^verbatim>\<open>_print_exception\<close> writes the message to the terminal and then reads
      \<^verbatim>\<open>self.debug\<close>: the flag is an attribute of the model, not of the handler.\<close>
  "print_exception s =
     (if ''debug'' \<in> set handler_attributes then Inr () else Inl (AttributeError ''debug''))"

definition configured_defaults :: "string \<Rightarrow> 'o model" where
  \<comment> \<open>The new \<^verbatim>\<open>PersistentModel\<close> with its name, after the defaults of \<^verbatim>\<open>_set_params\<close>
      are assigned. \<open>dim_reduction\<close> is assigned by the caller right after \<^verbatim>\<open>_set_params\<close>.\<close>
  "configured_defaults name =
     \<lparr>m_name = name, overwrite = False, debug = False, test_size = 33 / 100, random_state = 42,
      compress = 3, retain_data = False, dim_reduction = False,
      scaler = None, missing = None, scale_hashed = None, scaler_kwargs = None,
      estimator = None, estimator_kwargs = None,
      reduction = None, dim_reduction_args = None, dim_reduction_kwargs = None,
      features_df = None, retained = None, pipe = None, estimation_step = None,
      score = None, state_timestamp = None\<rparr>"

definition set_execution_params :: "'o env \<Rightarrow> string \<Rightarrow> 'o model \<Rightarrow> error + 'o model" where
  "set_execution_params env execution_args m =
     (if length execution_args > 0 then
        bindE (get_kwargs env execution_args) (\<lambda>d.
          let m1 = (case map_of d ''overwrite'' of
                      None \<Rightarrow> m
                    | Some v \<Rightarrow> m\<lparr>overwrite := (''true'' = lower env v)\<rparr>)
          in
          bindE (case map_of d ''test_size'' of
                   None \<Rightarrow> Inr m1
                 | Some v \<Rightarrow> bindE (atof env v) (\<lambda>x. Inr (m1\<lparr>test_size := x\<rparr>))) (\<lambda>m2.
          bindE (case map_of d ''random_state'' of
                   None \<Rightarrow> Inr m2
                 | Some v \<Rightarrow> bindE (atoi env v) (\<lambda>x. Inr (m2\<lparr>random_state := x\<rparr>))) (\<lambda>m3.
          bindE (case map_of d ''compress'' of
                   None \<Rightarrow> Inr m3
                 | Some v \<Rightarrow> bindE (atoi env v) (\<lambda>x. Inr (m3\<lparr>compress := x\<rparr>))) (\<lambda>m4.
          let m5 = (case map_of d ''retain_data'' of
                      None \<Rightarrow> m4
                    | Some v \<Rightarrow> m4\<lparr>retain_data := (''true'' = lower env v)\<rparr>);
              m6 = (case map_of d ''debug'' of
                      None \<Rightarrow> m5
                    | Some v \<Rightarrow> m5\<lparr>debug := (''true'' = lower env v)\<rparr>)
          in Inr m6))))
      else Inr m)"

definition set_scaler_params :: "'o env \<Rightarrow> string \<Rightarrow> 'o model \<Rightarrow> error + 'o model" where
  "set_scaler_params env scaler_args m =
     (if length scaler_args > 0 then
        bindE (get_kwargs env scaler_args) (\<lambda>d.
          case map_of d ''scaler'' of
            Some v \<Rightarrow>
              (let d1 = AList.delete ''scaler'' d;
                   m1 = m\<lparr>scaler := Some v\<rparr>;
                   m2 = (case map_of d1 ''missing'' of
                           None \<Rightarrow> m1
                         | Some x \<Rightarrow> m1\<lparr>missing := Some (lower env x)\<rparr>);
                   d2 = AList.delete ''missing'' d1;
                   m3 = (case map_of d2 ''scale_hashed'' of
                           None \<Rightarrow> m2
                         | Some x \<Rightarrow> m2\<lparr>scale_hashed := Some (''true'' = lower env x)\<rparr>);
                   d3 = AList.delete ''scale_hashed'' d2
               in bindE (get_kwargs_by_type env d3) (\<lambda>kw. Inr (m3\<lparr>scaler_kwargs := Some kw\<rparr>)))
          | None \<Rightarrow>
              bindE (print_exception
                       ''Arguments for scaling did not include the scaler name e.g StandardScaler'')
                (\<lambda>u. Inr m))
      else Inr m)"

definition set_estimator_params :: "'o env \<Rightarrow> string \<Rightarrow> 'o model \<Rightarrow> error + 'o model" where
  "set_estimator_params env estimator_args m =
     (if length estimator_args > 0 then
        bindE (get_kwargs env estimator_args) (\<lambda>d.
          case map_of d ''estimator'' of
            Some v \<Rightarrow>
              bindE (get_kwargs_by_type env (AList.delete ''estimator'' d))
                (\<lambda>kw. Inr (m\<lparr>estimator := Some v, estimator_kwargs := Some kw\<rparr>))
          | None \<Rightarrow>
              bindE (print_exception
                       ''Arguments for estimator did not include the estimator class e.g. RandomForestClassifier'')
                (\<lambda>u. Inr m))
      else Inr m)"

definition set_reduction_params :: "'o env \<Rightarrow> string option \<Rightarrow> 'o model \<Rightarrow> error + 'o model" where
  "set_reduction_params env reduction_args m =
     (case reduction_args of
        None \<Rightarrow> Inr m
      | Some a \<Rightarrow>
          bindE (get_kwargs env a) (\<lambda>d.
            case map_of d ''reduction'' of
              Some v \<Rightarrow>
                bindE (get_kwargs_by_type env (AList.delete ''reduction'' d))
                  (\<lambda>kw. Inr (m\<lparr>reduction := Some v, dim_reduction_args := Some kw\<rparr>))
            | None \<Rightarrow>
                bindE (print_exception
                         ''Arguments for dimensionality reduction did not include the class e.g. PCA'')
                  (\<lambda>u. Inr m)))"

definition set_params ::
  "'o env \<Rightarrow> string \<Rightarrow> string \<Rightarrow> string \<Rightarrow> string \<Rightarrow> string option \<Rightarrow> error + 'o model" where
  \<comment> \<open>\<^verbatim>\<open>_set_params\<close> on the new model of the given name: the execution arguments first, then
      the scaler, the estimator and the dimensionality reduction.\<close>
  "set_params env name estimator_args scaler_args execution_args reduction_args =
     bindE (set_execution_params env execution_args (configured_defaults name)) (\<lambda>m1.
     bindE (set_scaler_params env scaler_args m1) (\<lambda>m2.
     bindE (set_estimator_params env estimator_args m2) (\<lambda>m3.
     set_reduction_params env reduction_args m3)))"

subsection \<open>Reading and writing the store inside a handler\<close>

definition read_model :: "nat \<Rightarrow> ('o, 'o model) action" where
  "read_model r = (\<lambda>s. (Inr (models s r), s))"

definition modify_model :: "nat \<Rightarrow> ('o model \<Rightarrow> 'o model) \<Rightarrow> ('o, unit) action" where
  "modify_model r f = (\<lambda>s. (Inr (), s\<lparr>models := (models s)(r := f (models s r))\<rparr>))"

definition read_frame :: "nat \<Rightarrow> ('o, dataframe) action" where
  "read_frame d = (\<lambda>s. (Inr (frames s d), s))"

definition write_frame :: "nat \<Rightarrow> dataframe \<Rightarrow> ('o, unit) action" where
  "write_frame d df = (\<lambda>s. (Inr (), s\<lparr>frames := (frames s)(d := df)\<rparr>))"

definition alloc_model :: "'o model \<Rightarrow> ('o, nat) action" where
  "alloc_model m = (\<lambda>s. case new_model m s of (r, s1) \<Rightarrow> (Inr r, s1))"

definition alloc_frame :: "dataframe \<Rightarrow> ('o, nat) action" where
  "alloc_frame df = (\<lambda>s. case new_frame df s of (d, s1) \<Rightarrow> (Inr d, s1))"

definition save_model :: "'o env \<Rightarrow> nat \<Rightarrow> ('o, nat) action" where
  \<comment> \<open>\<^verbatim>\<open>self.model.save(self.model.name, self.path, self.model.compress)\<close>\<close>
  "save_model env r = (\<lambda>s. save (clock env) r (m_name (models s r)) (compress (models s r)) s)"

definition put_in_cache :: "nat \<Rightarrow> ('o, unit) action" where
  "put_in_cache r = (\<lambda>s. (Inr (), update_cache r s))"

fun mapE :: "('a \<Rightarrow> error + 'b) \<Rightarrow> 'a list \<Rightarrow> error + 'b list" where
  "mapE f [] = Inr []"
| "mapE f (x # xs) = bindE (f x) (\<lambda>y. bindE (mapE f xs) (\<lambda>ys. Inr (y # ys)))"

definition item :: "'a list \<Rightarrow> nat \<Rightarrow> error + 'a" where
  \<comment> \<open>\<^verbatim>\<open>xs[i]\<close> for an index that is not negative\<close>
  "item xs i = (if i < length xs then Inr (xs ! i) else Inl IndexError)"

subsection \<open>setup, set\_features, get\_features\<close>

definition setup_model :: "'o env \<Rightarrow> bool \<Rightarrow> pyval list list \<Rightarrow> ('o, dataframe) action" where
  \<comment> \<open>the method \<^verbatim>\<open>setup\<close>\<close>
  "setup_model env dimred request =
     (let row_template = (if dimred then replicate 5 ''strData'' else replicate 4 ''strData'');
          col_headers =
            (if dimred then [''model_name'', ''estimator_args'', ''scaler_args'', ''dim_reduction_args'',
                          ''execution_args'']
             else [''model_name'', ''estimator_args'', ''scaler_args'', ''execution_args''])
      in
      bindS (liftE (request_df request row_template col_headers)) (\<lambda>rdf.
      bindS (liftE (loc0_str rdf ''model_name'')) (\<lambda>name.
      bindS (liftE (loc0_str rdf ''estimator_args'')) (\<lambda>estimator_args.
      bindS (liftE (loc0_str rdf ''scaler_args'')) (\<lambda>scaler_args.
      bindS (liftE (loc0_str rdf ''execution_args'')) (\<lambda>execution_args.
      bindS (liftE (if dimred then bindE (loc0_str rdf ''dim_reduction_args'') (\<lambda>a. Inr (Some a))
                    else Inr None)) (\<lambda>reduction_args.
      bindS (liftE (set_params env name estimator_args scaler_args execution_args reduction_args)) (\<lambda>m.
      bindS (alloc_model (m\<lparr>dim_reduction := dimred\<rparr>)) (\<lambda>r.
      bindS (save_model env r) (\<lambda>r1.
      bindS (put_in_cache r1) (\<lambda>u.
      bindS (read_model r1) (\<lambda>m1.
      bindS (liftE (timestamp_text env m1)) (\<lambda>ts.
      returnS (message_frame [''model_name'', ''result'', ''time_stamp'']
                 [VStr (m_name m1), VStr ''Model successfully saved to disk'', VStr ts]))))))))))))))"

definition set_features :: "'o env \<Rightarrow> pyval list list \<Rightarrow> ('o, dataframe) action" where
  "set_features env request =
     bindS (liftE (request_df request
                     [''strData'', ''strData'', ''strData'', ''strData'', ''strData'', ''numData'']
                     [''model_name'', ''name'', ''variable_type'', ''data_type'', ''feature_strategy'',
                      ''hash_features''])) (\<lambda>rdf.
     bindS (liftE (loc0_str rdf ''model_name'')) (\<lambda>name.
     bindS (get_model name) (\<lambda>r.
     bindS (alloc_frame rdf) (\<lambda>d.
     bindS (modify_model r (\<lambda>m. m\<lparr>features_df := Some d\<rparr>)) (\<lambda>u.
     bindS (liftE (set_index rdf (VStr ''name''))) (\<lambda>indexed.
     bindS (write_frame d indexed) (\<lambda>u.
     bindS (save_model env r) (\<lambda>r1.
     bindS (put_in_cache r1) (\<lambda>u.
     bindS (read_model r1) (\<lambda>m1.
     bindS (liftE (timestamp_text env m1)) (\<lambda>ts.
     returnS (message_frame [''model_name'', ''result'', ''time_stamp'']
                [VStr (m_name m1), VStr ''Feature definitions successfully saved to model'',
                 VStr ts]))))))))))))"

definition sort_order_values :: "dataframe \<Rightarrow> pyval list" where
  \<comment> \<open>\<^verbatim>\<open>[i+1 for i in range(len(df.index))]\<close>\<close>
  "sort_order_values df = map (\<lambda>i. VInt (int i + 1)) [0..<length (df_index df)]"

definition get_features :: "'o env \<Rightarrow> pyval list list \<Rightarrow> ('o, dataframe) action" where
  \<comment> \<open>\<^verbatim>\<open>self.response\<close> is bound to the frame object of the model, at address \<open>d\<close>, when
      the column is assigned; the selection of columns that follows is a new frame.\<close>
  "get_features env request =
     bindS (liftE (request_df request [''strData''] [''model_name''])) (\<lambda>rdf.
     bindS (liftE (loc0_str rdf ''model_name'')) (\<lambda>name.
     bindS (get_model name) (\<lambda>r.
     bindS (read_model r) (\<lambda>m.
     bindS (liftE (attr ''features_df'' (features_df m))) (\<lambda>d.
     bindS (read_frame d) (\<lambda>df.
     bindS (write_frame d (set_column df (VStr ''sort_order'') (sort_order_values df))) (\<lambda>u.
     bindS (read_frame d) (\<lambda>df1.
     liftE (select_columns df1
              [VStr ''model_name'', VStr ''sort_order'', VStr ''name'', VStr ''variable_type'',
               VStr ''data_type'', VStr ''feature_strategy'', VStr ''hash_features''])))))))))"

subsection \<open>fit\<close>

definition split_cells :: "nat \<Rightarrow> dataframe \<Rightarrow> error + pyval list list" where
  \<comment> \<open>\<^verbatim>\<open>[x[k].split("|") for x in df.values.tolist()]\<close>\<close>
  "split_cells k df =
     mapE (\<lambda>(l, row). bindE (as_str (cell_at row k)) (\<lambda>t. Inr (map VStr (split_on (CHR ''|'') t))))
       (df_rows df)"

definition is_target :: "pyval \<Rightarrow> bool" where
  "is_target v = (v = VStr ''target'')"

definition is_exclusion :: "pyval \<Rightarrow> bool" where
  \<comment> \<open>\<^verbatim>\<open>isin(["excluded", "target", "identifier"])\<close>\<close>
  "is_exclusion v = (v \<in> set [VStr ''excluded'', VStr ''target'', VStr ''identifier''])"

definition first_label :: "dataframe \<Rightarrow> error + pyval" where
  \<comment> \<open>\<^verbatim>\<open>df.index[0]\<close>\<close>
  "first_label df = (case df_index df of [] \<Rightarrow> Inl IndexError | l # ls \<Rightarrow> Inr l)"

definition model_features :: "'o state \<Rightarrow> nat \<Rightarrow> error + dataframe" where
  \<comment> \<open>\<^verbatim>\<open>self.model.features_df\<close>, for the model object at \<open>r\<close>\<close>
  "model_features s r =
     bindE (attr ''features_df'' (features_df (models s r))) (\<lambda>d. Inr (frames s d))"

definition read_features :: "nat \<Rightarrow> ('o, dataframe) action" where
  "read_features r = (\<lambda>s. (model_features s r, s))"

definition feature_frame :: "'o env \<Rightarrow> nat \<Rightarrow> dataframe \<Rightarrow> nat \<Rightarrow> ('o, dataframe) action" where
  \<comment> \<open>The feature strings, in the cell \<open>k\<close> of each row of the request, are split
      into the columns named by the feature definitions of the model, and converted by
      \<^verbatim>\<open>utils.convert_types\<close>. The state is only read.\<close>
  "feature_frame env k rdf r =
     (\<lambda>s. (bindE (split_cells k rdf) (\<lambda>data.
             bindE (model_features s r) (\<lambda>fdf.
             bindE (get_column fdf (VStr ''name'')) (\<lambda>names.
             bindE (make_frame env data names (df_index rdf)) (\<lambda>X.
             convert_types env X fdf)))), s))"

definition target_data :: "dataframe \<Rightarrow> dataframe \<Rightarrow> error + dataframe" where
  \<comment> \<open>the target feature is the first row of the feature definitions with the variable
      type \<^verbatim>\<open>target\<close>; the result is \<^verbatim>\<open>target_df\<close>\<close>
  "target_data tt fdf =
     bindE (select_rows fdf (VStr ''variable_type'') is_target) (\<lambda>target.
     bindE (first_label target) (\<lambda>target_name.
     select_columns tt [target_name]))"

definition fit_data :: "'o env \<Rightarrow> nat \<Rightarrow> dataframe \<Rightarrow> ('o, dataframe \<times> dataframe) action" where
  \<comment> \<open>from the split of the feature strings to the removal of the excluded columns;
      the result is \<^verbatim>\<open>train_test_df\<close> and \<^verbatim>\<open>target_df\<close>\<close>
  "fit_data env r rdf =
     bindS (feature_frame env 1 rdf r) (\<lambda>tt1.
     bindS (read_features r) (\<lambda>fdf.
     bindS (liftE (target_data tt1 fdf)) (\<lambda>target_df.
     bindS (liftE (select_rows fdf (VStr ''variable_type'') is_exclusion)) (\<lambda>excluded.
     bindS (liftE (select_rows fdf (VStr ''variable_type'') (\<lambda>v. \<not> is_exclusion v))) (\<lambda>kept.
     bindS (alloc_frame kept) (\<lambda>d1.
     bindS (modify_model r (\<lambda>m. m\<lparr>features_df := Some d1\<rparr>)) (\<lambda>u.
     bindS (liftE (select_columns tt1 (df_index kept))) (\<lambda>tt2.
     returnS (tt2, target_df)))))))))"

definition fit_split ::
  "'o env \<Rightarrow> nat \<Rightarrow> dataframe \<times> dataframe \<Rightarrow>
   ('o, dataframe \<times> dataframe \<times> dataframe \<times> dataframe) action" where
  \<comment> \<open>the result is \<^verbatim>\<open>(X_train, X_test, y_train, y_test)\<close>\<close>
  "fit_split env r tt =
     bindS (read_model r) (\<lambda>m.
     bindS (liftE (train_test_split env (fst tt) (snd tt) (test_size m) (random_state m))) (\<lambda>parts.
     bindS (if retain_data m then modify_model r (\<lambda>m. m\<lparr>retained := Some parts\<rparr>)
            else returnS ()) (\<lambda>u.
     returnS parts)))"

definition make_preprocessor :: "'o env \<Rightarrow> 'o model \<Rightarrow> dataframe \<Rightarrow> error + 'o" where
  "make_preprocessor env m fdf =
     bindE (attr ''scale_hashed'' (scale_hashed m)) (\<lambda>sh.
     bindE (attr ''missing'' (missing m)) (\<lambda>mi.
     bindE (attr ''scaler'' (scaler m)) (\<lambda>sc.
     bindE (attr ''scaler_kwargs'' (scaler_kwargs m)) (\<lambda>kw.
     Preprocessor env fdf sh mi sc kw))))"

definition make_estimator :: "'o env \<Rightarrow> 'o model \<Rightarrow> error + 'o" where
  \<comment> \<open>\<^verbatim>\<open>self.algorithms[self.model.estimator](**self.model.estimator_kwargs)\<close>: the class is
      looked up before the keyword arguments are read\<close>
  "make_estimator env m =
     bindE (attr ''estimator'' (estimator m)) (\<lambda>e.
     bindE (registry_lookup algorithms e) (\<lambda>cls.
     bindE (attr ''estimator_kwargs'' (estimator_kwargs m)) (\<lambda>kw.
     construct env cls kw)))"

definition make_reduction :: "'o env \<Rightarrow> 'o model \<Rightarrow> error + 'o" where
  \<comment> \<open>\<^verbatim>\<open>self.decomposers[self.model.reduction](**self.model.dim_reduction_kwargs)\<close>\<close>
  "make_reduction env m =
     bindE (attr ''reduction'' (reduction m)) (\<lambda>e.
     bindE (registry_lookup decomposers e) (\<lambda>cls.
     bindE (attr ''dim_reduction_kwargs'' (dim_reduction_kwargs m)) (\<lambda>kw.
     construct env cls kw)))"

definition fit_pipeline :: "'o env \<Rightarrow> nat \<Rightarrow> ('o, unit) action" where
  \<comment> \<open>the construction of the preprocessor, the estimator and the pipeline\<close>
  "fit_pipeline env r =
     bindS (read_model r) (\<lambda>m.
     bindS (read_features r) (\<lambda>fdf.
     bindS (liftE (make_preprocessor env m fdf)) (\<lambda>prep.
     bindS (liftE (make_estimator env m)) (\<lambda>est.
     bindS (modify_model r (\<lambda>m. m\<lparr>pipe := Some [(''preprocessor'', prep), (''estimator'', est)],
                                     estimation_step := Some 1\<rparr>)) (\<lambda>u.
     if dim_reduction m then
       bindS (liftE (make_reduction env m)) (\<lambda>red.
       bindS (liftE (pipeline_insert env [(''preprocessor'', prep), (''estimator'', est)] 1
                       (''reduction'', red))) (\<lambda>p.
       modify_model r (\<lambda>m. m\<lparr>pipe := Some p, estimation_step := Some 2\<rparr>)))
     else returnS ())))))"

definition fit_train ::
  "'o env \<Rightarrow> nat \<Rightarrow> dataframe \<times> dataframe \<times> dataframe \<times> dataframe \<Rightarrow> ('o, nat) action" where
  \<comment> \<open>fitting, scoring, saving and caching; \<^verbatim>\<open>pipe.fit\<close> changes the pipeline of the model\<close>
  "fit_train env r parts =
     (case parts of (X_train, X_test, y_train, y_test) \<Rightarrow>
        bindS (read_model r) (\<lambda>m.
        bindS (liftE (attr ''pipe'' (pipe m))) (\<lambda>p.
        bindS (liftE (pipe_fit env p X_train y_train)) (\<lambda>p1.
        bindS (modify_model r (\<lambda>m. m\<lparr>pipe := Some p1\<rparr>)) (\<lambda>u.
        bindS (liftE (pipe_score env p1 X_test y_test)) (\<lambda>sc.
        bindS (modify_model r (\<lambda>m. m\<lparr>score := Some sc\<rparr>)) (\<lambda>u.
        bindS (save_model env r) (\<lambda>r1.
        bindS (put_in_cache r1) (\<lambda>u.
        returnS r1)))))))))"

definition fit_response :: "'o env \<Rightarrow> nat \<Rightarrow> ('o, dataframe) action" where
  "fit_response env r =
     bindS (read_model r) (\<lambda>m.
     bindS (liftE (timestamp_text env m)) (\<lambda>ts.
     bindS (liftE (attr ''estimator'' (estimator m))) (\<lambda>e.
     bindS (liftE (attr ''score'' (score m))) (\<lambda>sc.
     returnS (message_frame [''model_name'', ''result'', ''time_stamp'', ''score_result'', ''score'']
                [VStr (m_name m), VStr ''Model successfully trained, tested and saved to disk.'',
                 VStr ts,
                 VStr (str_of env (VStr e) @ '' model has a '' @ format_3f env (VFloat sc)
                       @ '' accuracy against the test data.''),
                 VFloat sc])))))"

definition fit :: "'o env \<Rightarrow> pyval list list \<Rightarrow> ('o, dataframe) action" where
  "fit env request =
     bindS (liftE (request_df request [''strData'', ''strData''] [''model_name'', ''n_features''])) (\<lambda>rdf.
     bindS (liftE (loc0_str rdf ''model_name'')) (\<lambda>name.
     bindS (get_model name) (\<lambda>r.
     bindS (fit_data env r rdf) (\<lambda>tt.
     bindS (fit_split env r tt) (\<lambda>parts.
     bindS (fit_pipeline env r) (\<lambda>u.
     bindS (fit_train env r parts) (\<lambda>r1.
     fit_response env r1)))))))"

subsection \<open>predict\<close>

definition class_label :: "'o env \<Rightarrow> 'o model \<Rightarrow> nat \<Rightarrow> error + pyval" where
  \<comment> \<open>\<^verbatim>\<open>self.model.pipe.steps[self.model.estimation_step][1].classes_[i]\<close>\<close>
  "class_label env m i =
     bindE (attr ''pipe'' (pipe m)) (\<lambda>steps.
     bindE (attr ''estimation_step'' (estimation_step m)) (\<lambda>k.
     bindE (item steps k) (\<lambda>step.
     bindE (classes_of env (snd step)) (\<lambda>cs.
     item cs i))))"

fun proba_row :: "'o env \<Rightarrow> 'o model \<Rightarrow> nat \<Rightarrow> pyval list \<Rightarrow> string \<Rightarrow> error + string" where
  \<comment> \<open>the loop \<^verbatim>\<open>for b in a\<close>, from the counter \<open>i\<close> and the string \<open>s\<close> built so far\<close>
  "proba_row env m i [] s = Inr s"
| "proba_row env m i (b # bs) s =
     bindE (class_label env m i) (\<lambda>c.
     proba_row env m (Suc i) bs (s @ '', '' @ str_of env c @ '': '' @ format_3f env b))"

definition probabilities :: "'o env \<Rightarrow> 'o model \<Rightarrow> pyval list list \<Rightarrow> error + pyval list" where
  \<comment> \<open>the loop \<^verbatim>\<open>for a in self.y\<close>: each row gives the string \<^verbatim>\<open>s[2:]\<close>\<close>
  "probabilities env m y = mapE (\<lambda>a. bindE (proba_row env m 0 a []) (\<lambda>s. Inr (VStr (drop 2 s)))) y"

definition predict_values :: "'o env \<Rightarrow> 'o model \<Rightarrow> string \<Rightarrow> dataframe \<Rightarrow> error + pyval list" where
  "predict_values env m variant X =
     (if variant = ''predict_proba'' \<or> variant = ''predict_log_proba'' then
        bindE (attr ''pipe'' (pipe m)) (\<lambda>p.
        bindE (if variant = ''predict_proba'' then pipe_predict_proba env p X
               else pipe_predict_log_proba env p X) (\<lambda>y.
        probabilities env m y))
      else
        bindE (attr ''pipe'' (pipe m)) (\<lambda>p. pipe_predict env p X))"

definition result_frame :: "pyval list \<Rightarrow> pyval list \<Rightarrow> error + dataframe" where
  \<comment> \<open>\<^verbatim>\<open>pd.DataFrame(y, columns=["result"], index=index)\<close>: one value for each label\<close>
  "result_frame y index =
     (if length y = length index
      then Inr \<lparr>df_columns = [VStr ''result''], df_rows = zip index (map (\<lambda>v. [v]) y)\<rparr>
      else Inl (LibraryError ''Shape of passed values''))"

definition predict :: "'o env \<Rightarrow> bool \<Rightarrow> string \<Rightarrow> pyval list list \<Rightarrow> ('o, dataframe) action" where
  \<comment> \<open>the response is the frame returned to the load script, or the series \<^verbatim>\<open>result\<close>
      returned to a chart expression (a frame of one column)\<close>
  "predict env load_script variant request =
     (let row_template = (if load_script then [''strData'', ''strData'', ''strData'']
                          else [''strData'', ''strData'']);
          col_headers = (if load_script then [''model_name'', ''key'', ''n_features'']
                         else [''model_name'', ''n_features'']);
          feature_col_num = (if load_script then 2 else 1)
      in
      bindS (liftE (request_df request row_template col_headers)) (\<lambda>rdf0.
      bindS (liftE (loc0_str rdf0 ''model_name'')) (\<lambda>name.
      bindS (get_model name) (\<lambda>r.
      bindS (liftE (if load_script then set_index rdf0 (VStr ''key'') else Inr rdf0)) (\<lambda>rdf.
      bindS (feature_frame env feature_col_num rdf r) (\<lambda>X.
      bindS (read_model r) (\<lambda>m.
      bindS (liftE (predict_values env m variant X)) (\<lambda>y.
      bindS (liftE (result_frame y (df_index X))) (\<lambda>response.
      liftE (if load_script then join_drop env rdf response (VStr ''n_features'')
             else select_columns response [VStr ''result'']))))))))))"

subsection \<open>A concrete environment and concrete requests\<close>

text \<open>
  The theorems below hold for every environment. To run the handlers on concrete
  requests, \<open>demo_env\<close> fixes one: arguments are parsed as comma-separated
  \<open>key=value\<close> tokens, the objects of scikit-learn are the names of their classes,
  every classifier has the classes \<open>no\<close> and \<open>yes\<close>.
\<close>

fun strip_left :: "string \<Rightarrow> string" where
  "strip_left [] = []"
| "strip_left (c # cs) = (if c = CHR '' '' then strip_left cs else c # cs)"

definition strip :: "string \<Rightarrow> string" where
  "strip t = rev (strip_left (rev (strip_left t)))"

definition parse_token :: "string \<Rightarrow> error + string \<times> string" where
  "parse_token t =
     (if CHR ''='' \<in> set t
      then Inr (strip (takeWhile (\<lambda>c. c \<noteq> CHR ''='') t),
                strip (drop 1 (dropWhile (\<lambda>c. c \<noteq> CHR ''='') t)))
      else Inl (LibraryError t))"

definition parse_kwargs :: "string \<Rightarrow> error + (string \<times> string) list" where
  "parse_kwargs t = mapE parse_token (split_on (CHR '','') t)"

definition demo_env :: "string env" where
  "demo_env =
     \<lparr>get_kwargs = parse_kwargs,
      get_kwargs_by_type = (\<lambda>d. Inr (map (\<lambda>(k, v). (k, VStr v)) d)),
      convert_types = (\<lambda>df fdf. Inr df),
      Preprocessor = (\<lambda>fdf sh mi sc kw. Inr ''Preprocessor''),
      atof = (\<lambda>t. if t = ''0.5'' then Inr (1 / 2) else Inl (LibraryError ''ValueError'')),
      atoi = (\<lambda>t. if t = ''7'' then Inr 7 else Inl (LibraryError ''ValueError'')),
      lower = (\<lambda>t. t),
      clock = 0,
      strftime = (\<lambda>t. ''00:00:00''),
      str_of = (\<lambda>v. case v of VStr t \<Rightarrow> t | _ \<Rightarrow> ''?''),
      format_3f = (\<lambda>v. if v = VFloat (1 / 4) then ''0.250''
                        else if v = VFloat (3 / 4) then ''0.750'' else ''1.000''),
      make_frame = (\<lambda>data names index. Inr \<lparr>df_columns = names, df_rows = zip index data\<rparr>),
      join_drop = (\<lambda>a b c. Inr a),
      train_test_split = (\<lambda>X y ts rs. Inr (X, X, y, y)),
      construct = (\<lambda>cls kw. Inr cls),
      pipeline_insert = (\<lambda>p i x. Inr (take i p @ [x] @ drop i p)),
      pipe_fit = (\<lambda>p X y. Inr p),
      pipe_score = (\<lambda>p X y. Inr 1),
      pipe_predict = (\<lambda>p X. Inr (map (\<lambda>r. VStr ''yes'') (df_rows X))),
      pipe_predict_proba = (\<lambda>p X. Inr (map (\<lambda>r. [VFloat (1 / 4), VFloat (3 / 4)]) (df_rows X))),
      pipe_predict_log_proba = (\<lambda>p X. Inr (map (\<lambda>r. [VFloat (1 / 4), VFloat (3 / 4)]) (df_rows X))),
      classes_of = (\<lambda>ob. Inr [VStr ''no'', VStr ''yes''])\<rparr>"

definition empty_state :: "'o state" where
  "empty_state =
     \<lparr>models = (\<lambda>r. configured_defaults []), frames = (\<lambda>d. \<lparr>df_columns = [], df_rows = []\<rparr>),
      next_model = 0, next_frame = 0, model_cache = [], disk = (\<lambda>n. None)\<rparr>"

definition four_models :: "string state" where
  \<comment> \<open>four model objects, named m1 to m4, at the addresses 0 to 3; nothing cached\<close>
  "four_models =
     empty_state\<lparr>models := (\<lambda>r. configured_defaults
                                  (if r = 0 then ''m1'' else if r = 1 then ''m2''
                                   else if r = 2 then ''m3'' else ''m4'')),
                 next_model := 4\<rparr>"

definition three_cached :: "string state" where
  \<comment> \<open>put m1, put m2, put m3\<close>
  "three_cached = update_cache 2 (update_cache 1 (update_cache 0 four_models))"

subsection \<open>Laws of the two binds\<close>

lemma bindE_simps [simp]:
  "bindE (Inl e) f = Inl e"
  "bindE (Inr a) f = f a"
  by (simp_all add: bindE_def)

lemma bindE_Inr_iff: "bindE r f = Inr b \<longleftrightarrow> (\<exists>a. r = Inr a \<and> f a = Inr b)"
  by (cases r) simp_all

lemma bindE_isl: "isl r \<Longrightarrow> isl (bindE r f)"
  by (cases r) simp_all

lemma attr_simps [simp]:
  "attr a None = Inl (AttributeError a)"
  "attr a (Some x) = Inr x"
  by (simp_all add: attr_def)

lemma liftE_apply [simp]: "liftE r s = (r, s)"
  by (simp add: liftE_def)

lemma returnS_apply [simp]: "returnS a s = (Inr a, s)"
  by (simp add: returnS_def)

lemma bindS_Inl: "f s = (Inl e, s1) \<Longrightarrow> bindS f g s = (Inl e, s1)"
  by (simp add: bindS_def)

lemma bindS_Inr: "f s = (Inr a, s1) \<Longrightarrow> bindS f g s = g a s1"
  by (simp add: bindS_def)

lemma bindS_liftE [simp]:
  "bindS (liftE (Inl e)) g s = (Inl e, s)"
  "bindS (liftE (Inr a)) g s = g a s"
  by (simp_all add: bindS_def)

lemma bindS_returnS [simp]: "bindS (returnS a) g s = g a s"
  by (simp add: bindS_def)

lemma bindS_Inr_iff:
  "bindS f g s = (Inr b, s') \<longleftrightarrow> (\<exists>a s1. f s = (Inr a, s1) \<and> g a s1 = (Inr b, s'))"
  by (auto simp: bindS_def split: prod.splits sum.splits)

lemma bindS_liftE_Inr_iff:
  "bindS (liftE r) g s = (Inr b, s') \<longleftrightarrow> (\<exists>a. r = Inr a \<and> g a s = (Inr b, s'))"
  by (cases r) simp_all

lemma store_access [simp]:
  "read_model r s = (Inr (models s r), s)"
  "read_frame d s = (Inr (frames s d), s)"
  "modify_model r f s = (Inr (), s\<lparr>models := (models s)(r := f (models s r))\<rparr>)"
  "write_frame d df s = (Inr (), s\<lparr>frames := (frames s)(d := df)\<rparr>)"
  "put_in_cache r s = (Inr (), update_cache r s)"
  by (simp_all add: read_model_def read_frame_def modify_model_def write_frame_def put_in_cache_def)

subsection \<open>The cache\<close>

lemma get_model_hit:
  "map_of (model_cache s) name = Some r \<Longrightarrow> get_model name s = (Inr r, s)"
  by (simp add: get_model_def)

lemma update_cache_fields [simp]:
  "models (update_cache r s) = models s"
  "frames (update_cache r s) = frames s"
  "disk (update_cache r s) = disk s"
  "next_model (update_cache r s) = next_model s"
  "next_frame (update_cache r s) = next_frame s"
  by (simp_all add: update_cache_def Let_def)

lemma update_cache_from_empty:
  assumes "model_cache s = []"
    and "distinct [m_name (models s r1), m_name (models s r2), m_name (models s r3), m_name (models s r4)]"
  shows "model_cache (update_cache r3 (update_cache r2 (update_cache r1 s))) =
           [(m_name (models s r1), r1), (m_name (models s r2), r2), (m_name (models s r3), r3)]"
    and "model_cache (update_cache r4 (update_cache r3 (update_cache r2 (update_cache r1 s)))) =
           [(m_name (models s r2), r2), (m_name (models s r3), r3), (m_name (models s r4), r4)]"
  using assms by (auto simp add: update_cache_def Let_def cache_limit_def AList.delete_eq)

text \<open>
  C1, as the code has it. A lookup that finds the name in the cache returns the cached
  model and changes nothing: the order of the cache stays as it was, so the hit does not
  make the entry the most recently used one. Consequently, from an empty cache of
  capacity 3, the sequence put n1, put n2, put n3, get n1 (a hit), put n4 leaves exactly
  n2, n3, n4 in the cache, in this order: it is n1 that is evicted.
\<close>

theorem cache_hit_keeps_order:
  "(map_of (model_cache s) name = Some r \<longrightarrow> get_model name s = (Inr r, s)) \<and>
   (model_cache s = [] \<and>
    distinct [m_name (models s r1), m_name (models s r2), m_name (models s r3), m_name (models s r4)]
    \<longrightarrow> (let s3 = update_cache r3 (update_cache r2 (update_cache r1 s))
         in get_model (m_name (models s r1)) s3 = (Inr r1, s3) \<and>
            cache_names (update_cache r4 (snd (get_model (m_name (models s r1)) s3))) =
              [m_name (models s r2), m_name (models s r3), m_name (models s r4)]))"
proof (intro conjI impI)
  assume "map_of (model_cache s) name = Some r"
  then show "get_model name s = (Inr r, s)" by (rule get_model_hit)
next
  assume a: "model_cache s = [] \<and>
    distinct [m_name (models s r1), m_name (models s r2), m_name (models s r3), m_name (models s r4)]"
  let ?s3 = "update_cache r3 (update_cache r2 (update_cache r1 s))"
  from a have c3: "model_cache ?s3 =
      [(m_name (models s r1), r1), (m_name (models s r2), r2), (m_name (models s r3), r3)]"
    using update_cache_from_empty(1) [of s r1 r2 r3 r4] by simp
  then have hit: "get_model (m_name (models s r1)) ?s3 = (Inr r1, ?s3)"
    by (intro get_model_hit) simp
  from a have c4: "model_cache (update_cache r4 ?s3) =
      [(m_name (models s r2), r2), (m_name (models s r3), r3), (m_name (models s r4), r4)]"
    using update_cache_from_empty(2) [of s r1 r2 r3 r4] by simp
  show "let s3 = ?s3
        in get_model (m_name (models s r1)) s3 = (Inr r1, s3) \<and>
           cache_names (update_cache r4 (snd (get_model (m_name (models s r1)) s3))) =
             [m_name (models s r2), m_name (models s r3), m_name (models s r4)]"
    using hit c4 by (simp add: cache_names_def)
qed

lemma four_models_simps [simp]:
  "model_cache four_models = []"
  "m_name (models four_models 0) = ''m1''"
  "m_name (models four_models (Suc 0)) = ''m2''"
  "m_name (models four_models 2) = ''m3''"
  "m_name (models four_models 3) = ''m4''"
  by (simp_all add: four_models_def empty_state_def configured_defaults_def)

lemma three_cached_cache [simp]: "model_cache three_cached = [(''m1'', 0), (''m2'', 1), (''m3'', 2)]"
  unfolding three_cached_def
  using update_cache_from_empty(1) [of four_models 0 1 2 3] by simp

theorem cache_hit_keeps_order_witness:
  "map_of (model_cache three_cached) ''m2'' = Some 1 \<and>
   get_model ''m2'' three_cached = (Inr 1, three_cached) \<and>
   model_cache four_models = [] \<and>
   get_model ''m1'' three_cached = (Inr 0, three_cached) \<and>
   cache_names (update_cache 3 (snd (get_model ''m1'' three_cached))) = [''m2'', ''m3'', ''m4'']"
proof -
  have h1: "map_of (model_cache three_cached) ''m2'' = Some 1" by simp
  from cache_hit_keeps_order [of three_cached "''m2''" 1 0 1 2 3]
  have "map_of (model_cache three_cached) ''m2'' = Some 1 \<longrightarrow>
        get_model ''m2'' three_cached = (Inr 1, three_cached)"
    by (rule conjunct1)
  from this h1 have c1: "get_model ''m2'' three_cached = (Inr 1, three_cached)"
    by (rule mp)
  have names:
    "m_name (models four_models 0) = ''m1''" "m_name (models four_models 1) = ''m2''"
    "m_name (models four_models 2) = ''m3''" "m_name (models four_models 3) = ''m4''"
    by simp_all
  have e: "update_cache 2 (update_cache 1 (update_cache 0 four_models)) = three_cached"
    by (simp add: three_cached_def)
  have h2: "model_cache four_models = [] \<and> distinct [''m1'', ''m2'', ''m3'', ''m4'']"
    by simp
  from cache_hit_keeps_order [of four_models "''m2''" 1 0 1 2 3]
  have "model_cache four_models = [] \<and> distinct [''m1'', ''m2'', ''m3'', ''m4''] \<longrightarrow>
        get_model ''m1'' three_cached = (Inr 0, three_cached) \<and>
        cache_names (update_cache 3 (snd (get_model ''m1'' three_cached))) =
          [''m2'', ''m3'', ''m4'']"
    unfolding Let_def names e by (rule conjunct2)
  from this h2 have c2: "get_model ''m1'' three_cached = (Inr 0, three_cached) \<and>
        cache_names (update_cache 3 (snd (get_model ''m1'' three_cached))) =
          [''m2'', ''m3'', ''m4'']"
    by (rule mp)
  from h1 c1 h2 c2 show ?thesis by blast
qed

text \<open>
  C1, as the spec states it, fails on the run it names: after put m1, put m2, put m3,
  get m1 (a hit), put m4 the cache holds m2, m3, m4; m1 is gone and m2 is still there.
\<close>

theorem lru_promotion_counterexample:
  "fst (get_model ''m1'' three_cached) = Inr 0 \<and>
   cache_names (update_cache 3 (snd (get_model ''m1'' three_cached))) = [''m2'', ''m3'', ''m4''] \<and>
   ''m2'' \<in> set (cache_names (update_cache 3 (snd (get_model ''m1'' three_cached)))) \<and>
   ''m1'' \<notin> set (cache_names (update_cache 3 (snd (get_model ''m1'' three_cached))))"
proof -
  have hit: "get_model ''m1'' three_cached = (Inr 0, three_cached)"
    by (rule get_model_hit) simp
  have "model_cache (update_cache 3 three_cached) = [(''m2'', 1), (''m3'', 2), (''m4'', 3)]"
    unfolding three_cached_def
    using update_cache_from_empty(2) [of four_models 0 1 2 3] by simp
  then have names: "cache_names (update_cache 3 three_cached) = [''m2'', ''m3'', ''m4'']"
    by (simp add: cache_names_def)
  show ?thesis unfolding hit fst_conv snd_conv names by simp
qed

text \<open>
  C2 at a full cache holding m1, m2, m3 (m1 the oldest): putting m2 again first drops
  m1, because the cache is full, and only then removes the old entry of m2. The cache is
  left with two entries, m3 and m2, and m1, a model of another name, has been evicted.
\<close>

theorem put_cached_name_evicts_other:
  "cache_names three_cached = [''m1'', ''m2'', ''m3''] \<and>
   length (model_cache three_cached) = cache_limit \<and>
   cache_names (update_cache 1 three_cached) = [''m3'', ''m2'']"
proof -
  have n: "m_name (models three_cached 1) = ''m2''"
    by (simp add: three_cached_def)
  have "model_cache (update_cache 1 three_cached) = [(''m3'', 2), (''m2'', 1)]"
    unfolding update_cache_def Let_def n three_cached_cache cache_limit_def
    by (simp add: AList.delete_eq)
  then show ?thesis
    by (simp add: cache_names_def cache_limit_def)
qed

subsection \<open>Requests and their first row\<close>

definition has_key :: "'o env \<Rightarrow> string \<Rightarrow> string \<Rightarrow> bool" where
  \<comment> \<open>the argument string, read by \<open>get_kwargs\<close>, gives a dictionary with the key\<close>
  "has_key env args k =
     (case get_kwargs env args of Inl e \<Rightarrow> False | Inr d \<Rightarrow> map_of d k \<noteq> None)"

definition omits :: "'o env \<Rightarrow> string \<Rightarrow> string \<Rightarrow> bool" where
  "omits env args k = (args = [] \<or> \<not> has_key env args k)"

definition setup_row :: "bool \<Rightarrow> string \<Rightarrow> string \<Rightarrow> string \<Rightarrow> string \<Rightarrow> string \<Rightarrow> pyval list" where
  \<comment> \<open>the row of a configure call: the reduction arguments are sent only to the variant of
      the call with dimensionality reduction\<close>
  "setup_row dimred name est sc dr ex =
     (if dimred then [VStr name, VStr est, VStr sc, VStr dr, VStr ex]
      else [VStr name, VStr est, VStr sc, VStr ex])"

lemma request_df_first_row:
  assumes "request = cells # rest"
    and "request_df request row_template col_headers = Inr rdf"
  shows "\<exists>rows. rdf = \<lparr>df_columns = map VStr col_headers, df_rows = (VInt 0, cells) # rows\<rparr>"
proof -
  have "[0..<Suc (length rest)] = 0 # [Suc 0..<Suc (length rest)]"
    by (rule upt_conv_Cons) simp
  with assms show ?thesis
    by (auto simp add: request_df_def simp del: upt_Suc split: if_splits)
qed

lemma loc0_str_first:
  "loc0_str \<lparr>df_columns = VStr c # cols, df_rows = (l, VStr v # cells) # rows\<rparr> c = Inr v"
  by (simp add: loc0_str_def loc0_def cell_at_def as_str_def)

lemma print_exception_raises: "print_exception t = Inl (AttributeError ''debug'')"
  by (simp add: print_exception_def handler_attributes_def)

lemma scaler_missing:
  assumes "sc \<noteq> []" and "\<not> has_key env sc ''scaler''"
  shows "\<exists>e. set_scaler_params env sc m = Inl e"
  using assms
  by (cases "get_kwargs env sc")
     (auto simp add: set_scaler_params_def has_key_def print_exception_raises)

lemma estimator_missing:
  assumes "est \<noteq> []" and "\<not> has_key env est ''estimator''"
  shows "\<exists>e. set_estimator_params env est m = Inl e"
  using assms
  by (cases "get_kwargs env est")
     (auto simp add: set_estimator_params_def has_key_def print_exception_raises)

lemma reduction_missing:
  assumes "\<not> has_key env dr ''reduction''"
  shows "\<exists>e. set_reduction_params env (Some dr) m = Inl e"
  using assms
  by (cases "get_kwargs env dr")
     (auto simp add: set_reduction_params_def has_key_def print_exception_raises)

lemma set_params_missing:
  assumes "(est \<noteq> [] \<and> \<not> has_key env est ''estimator'') \<or>
           (sc \<noteq> [] \<and> \<not> has_key env sc ''scaler'') \<or>
           (\<exists>dr. reduction_args = Some dr \<and> \<not> has_key env dr ''reduction'')"
  shows "\<exists>e. set_params env name est sc ex reduction_args = Inl e"
proof (cases "set_execution_params env ex (configured_defaults name)")
  case (Inl e)
  then show ?thesis by (simp add: set_params_def)
next
  case m1: (Inr m1)
  show ?thesis
  proof (cases "set_scaler_params env sc m1")
    case (Inl e)
    with m1 show ?thesis by (simp add: set_params_def)
  next
    case m2: (Inr m2)
    show ?thesis
    proof (cases "set_estimator_params env est m2")
      case (Inl e)
      with m1 m2 show ?thesis by (simp add: set_params_def)
    next
      case m3: (Inr m3)
      from m2 scaler_missing [of sc env m1] have "sc = [] \<or> has_key env sc ''scaler''"
        by auto
      moreover from m3 estimator_missing [of est env m2]
      have "est = [] \<or> has_key env est ''estimator''"
        by auto
      ultimately obtain dr where "reduction_args = Some dr" "\<not> has_key env dr ''reduction''"
        using assms by blast
      with reduction_missing [of env dr m3] m1 m2 m3 show ?thesis
        by (simp add: set_params_def)
    qed
  qed
qed

lemma setup_model_params:
  assumes "request = setup_row dimred name est sc dr ex # rest"
  shows "setup_model env dimred request s =
           bindS (liftE (request_df request (if dimred then replicate 5 ''strData'' else replicate 4 ''strData'')
               (if dimred then [''model_name'', ''estimator_args'', ''scaler_args'', ''dim_reduction_args'', ''execution_args'']
                else [''model_name'', ''estimator_args'', ''scaler_args'', ''execution_args''])))
             (\<lambda>rdf.
           bindS (liftE (set_params env name est sc ex (if dimred then Some dr else None))) (\<lambda>m.
           bindS (alloc_model (m\<lparr>dim_reduction := dimred\<rparr>)) (\<lambda>r.
           bindS (save_model env r) (\<lambda>r1.
           bindS (put_in_cache r1) (\<lambda>u.
           bindS (read_model r1) (\<lambda>m1.
           bindS (liftE (timestamp_text env m1)) (\<lambda>ts.
           returnS (message_frame [''model_name'', ''result'', ''time_stamp'']
                 [VStr (m_name m1), VStr ''Model successfully saved to disk'', VStr ts])))))))) s"
proof (cases dimred)
  case True
  show ?thesis
  proof (cases "request_df request (replicate 5 ''strData'')
            [''model_name'', ''estimator_args'', ''scaler_args'', ''dim_reduction_args'', ''execution_args'']")
    case (Inl e)
    with True show ?thesis by (simp add: setup_model_def)
  next
    case (Inr rdf)
    from request_df_first_row [OF assms Inr] obtain rows where
      "rdf = \<lparr>df_columns = map VStr [''model_name'', ''estimator_args'', ''scaler_args'', ''dim_reduction_args'', ''execution_args''],
             df_rows = (VInt 0, setup_row dimred name est sc dr ex) # rows\<rparr>"
      by blast
    with True have "loc0_str rdf ''model_name'' = Inr name" "loc0_str rdf ''estimator_args'' = Inr est"
      "loc0_str rdf ''scaler_args'' = Inr sc" "loc0_str rdf ''dim_reduction_args'' = Inr dr"
      "loc0_str rdf ''execution_args'' = Inr ex"
      by (simp_all add: loc0_str_def loc0_def cell_at_def as_str_def setup_row_def)
    with True Inr show ?thesis by (simp add: setup_model_def)
  qed
next
  case False
  show ?thesis
  proof (cases "request_df request (replicate 4 ''strData'')
            [''model_name'', ''estimator_args'', ''scaler_args'', ''execution_args'']")
    case (Inl e)
    with False show ?thesis by (simp add: setup_model_def)
  next
    case (Inr rdf)
    from request_df_first_row [OF assms Inr] obtain rows where
      "rdf = \<lparr>df_columns = map VStr [''model_name'', ''estimator_args'', ''scaler_args'', ''execution_args''],
             df_rows = (VInt 0, setup_row dimred name est sc dr ex) # rows\<rparr>"
      by blast
    with False have "loc0_str rdf ''model_name'' = Inr name" "loc0_str rdf ''estimator_args'' = Inr est"
      "loc0_str rdf ''scaler_args'' = Inr sc" "loc0_str rdf ''execution_args'' = Inr ex"
      by (simp_all add: loc0_str_def loc0_def cell_at_def as_str_def setup_row_def)
    with False Inr show ?thesis by (simp add: setup_model_def)
  qed
qed

text \<open>
  C3. A configure call whose estimator arguments are not empty and lack the key
  \<open>estimator\<close>, or whose scaler arguments are not empty and lack \<open>scaler\<close>, or (in
  the variant with dimensionality reduction) whose reduction arguments lack
  \<open>reduction\<close>, raises an exception and leaves the state as it was: no model object is
  stored, saved or cached, so nothing is there to build a pipeline from. The exception is
  the one of the first step that fails; once the arguments parse it is the
  AttributeError raised inside \<^verbatim>\<open>_print_exception\<close>.
\<close>

theorem missing_selector_raises:
  assumes "request = setup_row dimred name est sc dr ex # rest"
    and "(est \<noteq> [] \<and> \<not> has_key env est ''estimator'') \<or>
         (sc \<noteq> [] \<and> \<not> has_key env sc ''scaler'') \<or>
         (dimred \<and> \<not> has_key env dr ''reduction'')"
  shows "\<exists>e. setup_model env dimred request s = (Inl e, s)"
proof -
  from assms(2) have "\<exists>e. set_params env name est sc ex (if dimred then Some dr else None) = Inl e"
    by (intro set_params_missing) auto
  then obtain e where e: "set_params env name est sc ex (if dimred then Some dr else None) = Inl e" ..
  show ?thesis
    unfolding setup_model_params [OF assms(1)]
    by (cases "request_df request (if dimred then replicate 5 ''strData'' else replicate 4 ''strData'')
               (if dimred then [''model_name'', ''estimator_args'', ''scaler_args'', ''dim_reduction_args'', ''execution_args'']
                else [''model_name'', ''estimator_args'', ''scaler_args'', ''execution_args''])")
       (simp_all add: e)
qed

definition bad_estimator_request :: "pyval list list" where
  \<comment> \<open>a configure call whose estimator arguments name no estimator\<close>
  "bad_estimator_request = [setup_row False ''m1'' ''n_estimators=10'' ''scaler=StandardScaler'' [] []]"

lemma bad_estimator_lacks_key: "\<not> has_key demo_env ''n_estimators=10'' ''estimator''"
  by (simp add: has_key_def demo_env_def parse_kwargs_def parse_token_def strip_def)

theorem missing_selector_raises_witness:
  "bad_estimator_request = setup_row False ''m1'' ''n_estimators=10'' ''scaler=StandardScaler'' [] [] # [] \<and>
   ''n_estimators=10'' \<noteq> [] \<and> \<not> has_key demo_env ''n_estimators=10'' ''estimator'' \<and>
   (\<exists>e. setup_model demo_env False bad_estimator_request empty_state = (Inl e, empty_state))"
proof -
  have r: "bad_estimator_request =
      setup_row False ''m1'' ''n_estimators=10'' ''scaler=StandardScaler'' [] [] # []"
    by (simp add: bad_estimator_request_def)
  have k: "''n_estimators=10'' \<noteq> [] \<and> \<not> has_key demo_env ''n_estimators=10'' ''estimator''"
    using bad_estimator_lacks_key by simp
  then have "(''n_estimators=10'' \<noteq> [] \<and> \<not> has_key demo_env ''n_estimators=10'' ''estimator'') \<or>
         (''scaler=StandardScaler'' \<noteq> [] \<and> \<not> has_key demo_env ''scaler=StandardScaler'' ''scaler'') \<or>
         (False \<and> \<not> has_key demo_env [] ''reduction'')"
    by blast
  from missing_selector_raises [OF r this]
  have "\<exists>e. setup_model demo_env False bad_estimator_request empty_state = (Inl e, empty_state)" .
  with r k show ?thesis by blast
qed

subsection \<open>The defaults of the execution parameters\<close>

lemma set_execution_params_shape:
  assumes "set_execution_params env ex m = Inr m'"
  shows "\<exists>b1 x2 x3 x4 b5 b6.
           m' = m\<lparr>overwrite := b1, test_size := x2, random_state := x3, compress := x4,
                  retain_data := b5, debug := b6\<rparr> \<and>
           (omits env ex ''overwrite'' \<longrightarrow> b1 = overwrite m) \<and>
           (omits env ex ''test_size'' \<longrightarrow> x2 = test_size m) \<and>
           (omits env ex ''random_state'' \<longrightarrow> x3 = random_state m) \<and>
           (omits env ex ''compress'' \<longrightarrow> x4 = compress m) \<and>
           (omits env ex ''retain_data'' \<longrightarrow> b5 = retain_data m) \<and>
           (omits env ex ''debug'' \<longrightarrow> b6 = debug m)"
proof (cases "ex = []")
  case True
  with assms have "m' = m" by (simp add: set_execution_params_def)
  then have "m' = m\<lparr>overwrite := overwrite m, test_size := test_size m,
                    random_state := random_state m, compress := compress m,
                    retain_data := retain_data m, debug := debug m\<rparr>"
    by simp
  then show ?thesis by fast
next
  case False
  with assms obtain d m2 m3 m4 where
    d: "get_kwargs env ex = Inr d" and
    s2: "(case map_of d ''test_size'' of
            None \<Rightarrow> Inr (case map_of d ''overwrite'' of
                      None \<Rightarrow> m
                    | Some v \<Rightarrow> m\<lparr>overwrite := (''true'' = lower env v)\<rparr>)
          | Some v \<Rightarrow> bindE (atof env v) (\<lambda>x. Inr ((case map_of d ''overwrite'' of
                      None \<Rightarrow> m
                    | Some v \<Rightarrow> m\<lparr>overwrite := (''true'' = lower env v)\<rparr>)\<lparr>test_size := x\<rparr>))) = Inr m2" and
    s3: "(case map_of d ''random_state'' of
            None \<Rightarrow> Inr m2
          | Some v \<Rightarrow> bindE (atoi env v) (\<lambda>x. Inr (m2\<lparr>random_state := x\<rparr>))) = Inr m3" and
    s4: "(case map_of d ''compress'' of
            None \<Rightarrow> Inr m3
          | Some v \<Rightarrow> bindE (atoi env v) (\<lambda>x. Inr (m3\<lparr>compress := x\<rparr>))) = Inr m4" and
    s6: "m' = (case map_of d ''debug'' of
                 None \<Rightarrow> (case map_of d ''retain_data'' of
                      None \<Rightarrow> m4
                    | Some v \<Rightarrow> m4\<lparr>retain_data := (''true'' = lower env v)\<rparr>)
               | Some v \<Rightarrow> (case map_of d ''retain_data'' of
                      None \<Rightarrow> m4
                    | Some v \<Rightarrow> m4\<lparr>retain_data := (''true'' = lower env v)\<rparr>)\<lparr>debug := (''true'' = lower env v)\<rparr>)"
    by (auto simp add: set_execution_params_def bindE_Inr_iff Let_def)
  define m1 where "m1 = (case map_of d ''overwrite'' of
                      None \<Rightarrow> m
                    | Some v \<Rightarrow> m\<lparr>overwrite := (''true'' = lower env v)\<rparr>)"
  define m5 where "m5 = (case map_of d ''retain_data'' of
                      None \<Rightarrow> m4
                    | Some v \<Rightarrow> m4\<lparr>retain_data := (''true'' = lower env v)\<rparr>)"
  have "\<exists>b1. m1 = m\<lparr>overwrite := b1\<rparr> \<and> (map_of d ''overwrite'' = None \<longrightarrow> b1 = overwrite m)"
    by (cases "map_of d ''overwrite''") (auto simp add: m1_def)
  then obtain b1 where b1: "m1 = m\<lparr>overwrite := b1\<rparr>" "map_of d ''overwrite'' = None \<longrightarrow> b1 = overwrite m"
    by auto
  from s2 have "\<exists>x2. m2 = m1\<lparr>test_size := x2\<rparr> \<and> (map_of d ''test_size'' = None \<longrightarrow> x2 = test_size m1)"
    by (cases "map_of d ''test_size''") (auto simp add: m1_def bindE_Inr_iff)
  then obtain x2 where x2: "m2 = m1\<lparr>test_size := x2\<rparr>" "map_of d ''test_size'' = None \<longrightarrow> x2 = test_size m1"
    by auto
  from s3 have "\<exists>x3. m3 = m2\<lparr>random_state := x3\<rparr> \<and> (map_of d ''random_state'' = None \<longrightarrow> x3 = random_state m2)"
    by (cases "map_of d ''random_state''") (auto simp add: bindE_Inr_iff)
  then obtain x3 where x3: "m3 = m2\<lparr>random_state := x3\<rparr>" "map_of d ''random_state'' = None \<longrightarrow> x3 = random_state m2"
    by auto
  from s4 have "\<exists>x4. m4 = m3\<lparr>compress := x4\<rparr> \<and> (map_of d ''compress'' = None \<longrightarrow> x4 = compress m3)"
    by (cases "map_of d ''compress''") (auto simp add: bindE_Inr_iff)
  then obtain x4 where x4: "m4 = m3\<lparr>compress := x4\<rparr>" "map_of d ''compress'' = None \<longrightarrow> x4 = compress m3"
    by auto
  have "\<exists>b5. m5 = m4\<lparr>retain_data := b5\<rparr> \<and> (map_of d ''retain_data'' = None \<longrightarrow> b5 = retain_data m4)"
    by (cases "map_of d ''retain_data''") (auto simp add: m5_def)
  then obtain b5 where b5: "m5 = m4\<lparr>retain_data := b5\<rparr>" "map_of d ''retain_data'' = None \<longrightarrow> b5 = retain_data m4"
    by auto
  from s6 have "\<exists>b6. m' = m5\<lparr>debug := b6\<rparr> \<and> (map_of d ''debug'' = None \<longrightarrow> b6 = debug m5)"
    by (cases "map_of d ''debug''") (auto simp add: m5_def)
  then obtain b6 where b6: "m' = m5\<lparr>debug := b6\<rparr>" "map_of d ''debug'' = None \<longrightarrow> b6 = debug m5"
    by auto
  have om: "\<And>k. omits env ex k \<Longrightarrow> map_of d k = None"
    using False d by (simp add: omits_def has_key_def)
  have "m' = m\<lparr>overwrite := b1, test_size := x2, random_state := x3, compress := x4,
                  retain_data := b5, debug := b6\<rparr>"
    by (simp add: b1(1) x2(1) x3(1) x4(1) b5(1) b6(1))
  moreover have "omits env ex ''overwrite'' \<longrightarrow> b1 = overwrite m" using om b1(2) by auto
  moreover have "omits env ex ''test_size'' \<longrightarrow> x2 = test_size m" using om x2(2) by (auto simp add: b1(1))
  moreover have "omits env ex ''random_state'' \<longrightarrow> x3 = random_state m" using om x3(2) by (auto simp add: b1(1) x2(1))
  moreover have "omits env ex ''compress'' \<longrightarrow> x4 = compress m" using om x4(2) by (auto simp add: b1(1) x2(1) x3(1))
  moreover have "omits env ex ''retain_data'' \<longrightarrow> b5 = retain_data m" using om b5(2) by (auto simp add: b1(1) x2(1) x3(1) x4(1))
  moreover have "omits env ex ''debug'' \<longrightarrow> b6 = debug m" using om b6(2) by (auto simp add: b1(1) x2(1) x3(1) x4(1) b5(1))
  ultimately show ?thesis by fast
qed


lemma set_scaler_params_keeps:
  assumes "set_scaler_params env sc m = Inr m'"
  shows "m_name m' = m_name m \<and> overwrite m' = overwrite m \<and> test_size m' = test_size m \<and>
         random_state m' = random_state m \<and> compress m' = compress m \<and>
         retain_data m' = retain_data m \<and> debug m' = debug m"
proof (cases "length sc > 0")
  case False
  with assms show ?thesis by (simp add: set_scaler_params_def)
next
  case True
  with assms obtain d where
    r: "(case map_of d ''scaler'' of
            Some v \<Rightarrow>
              (let d1 = AList.delete ''scaler'' d;
                   m1 = m\<lparr>scaler := Some v\<rparr>;
                   m2 = (case map_of d1 ''missing'' of
                           None \<Rightarrow> m1
                         | Some x \<Rightarrow> m1\<lparr>missing := Some (lower env x)\<rparr>);
                   d2 = AList.delete ''missing'' d1;
                   m3 = (case map_of d2 ''scale_hashed'' of
                           None \<Rightarrow> m2
                         | Some x \<Rightarrow> m2\<lparr>scale_hashed := Some (''true'' = lower env x)\<rparr>);
                   d3 = AList.delete ''scale_hashed'' d2
               in bindE (get_kwargs_by_type env d3) (\<lambda>kw. Inr (m3\<lparr>scaler_kwargs := Some kw\<rparr>)))
          | None \<Rightarrow>
              bindE (print_exception
                       ''Arguments for scaling did not include the scaler name e.g StandardScaler'')
                (\<lambda>u. Inr m)) = Inr m'"
    by (auto simp add: set_scaler_params_def bindE_Inr_iff)
  show ?thesis
  proof (cases "map_of d ''scaler''")
    case None
    with r show ?thesis by (simp add: print_exception_raises)
  next
    case (Some v)
    with r obtain kw where "m' =
        (case map_of (AList.delete ''missing'' (AList.delete ''scaler'' d)) ''scale_hashed'' of
           None \<Rightarrow> (case map_of (AList.delete ''scaler'' d) ''missing'' of
                      None \<Rightarrow> m\<lparr>scaler := Some v\<rparr>
                    | Some x \<Rightarrow> m\<lparr>scaler := Some v\<rparr>\<lparr>missing := Some (lower env x)\<rparr>)
         | Some x \<Rightarrow> (case map_of (AList.delete ''scaler'' d) ''missing'' of
                      None \<Rightarrow> m\<lparr>scaler := Some v\<rparr>
                    | Some x \<Rightarrow> m\<lparr>scaler := Some v\<rparr>\<lparr>missing := Some (lower env x)\<rparr>)
                     \<lparr>scale_hashed := Some (''true'' = lower env x)\<rparr>)
        \<lparr>scaler_kwargs := Some kw\<rparr>"
      by (auto simp add: Let_def bindE_Inr_iff)
    then show ?thesis
      by (simp split: option.splits)
  qed
qed


lemma set_estimator_params_keeps:
  assumes "set_estimator_params env est m = Inr m'"
  shows "m_name m' = m_name m \<and> overwrite m' = overwrite m \<and> test_size m' = test_size m \<and>
         random_state m' = random_state m \<and> compress m' = compress m \<and>
         retain_data m' = retain_data m \<and> debug m' = debug m"
proof (cases "length est > 0")
  case False
  with assms show ?thesis by (simp add: set_estimator_params_def)
next
  case True
  with assms obtain d where
    r: "(case map_of d ''estimator'' of
            Some v \<Rightarrow>
              bindE (get_kwargs_by_type env (AList.delete ''estimator'' d))
                (\<lambda>kw. Inr (m\<lparr>estimator := Some v, estimator_kwargs := Some kw\<rparr>))
          | None \<Rightarrow>
              bindE (print_exception
                       ''Arguments for estimator did not include the estimator class e.g. RandomForestClassifier'')
                (\<lambda>u. Inr m)) = Inr m'"
    by (auto simp add: set_estimator_params_def bindE_Inr_iff)
  then show ?thesis
    by (cases "map_of d ''estimator''") (auto simp add: print_exception_raises bindE_Inr_iff)
qed

lemma set_reduction_params_keeps:
  assumes "set_reduction_params env dr m = Inr m'"
  shows "m_name m' = m_name m \<and> overwrite m' = overwrite m \<and> test_size m' = test_size m \<and>
         random_state m' = random_state m \<and> compress m' = compress m \<and>
         retain_data m' = retain_data m \<and> debug m' = debug m"
proof (cases dr)
  case None
  with assms show ?thesis by (simp add: set_reduction_params_def)
next
  case (Some a)
  with assms obtain d where
    r: "(case map_of d ''reduction'' of
              Some v \<Rightarrow>
                bindE (get_kwargs_by_type env (AList.delete ''reduction'' d))
                  (\<lambda>kw. Inr (m\<lparr>reduction := Some v, dim_reduction_args := Some kw\<rparr>))
            | None \<Rightarrow>
                bindE (print_exception
                         ''Arguments for dimensionality reduction did not include the class e.g. PCA'')
                  (\<lambda>u. Inr m)) = Inr m'"
    by (auto simp add: set_reduction_params_def bindE_Inr_iff)
  then show ?thesis
    by (cases "map_of d ''reduction''") (auto simp add: print_exception_raises bindE_Inr_iff)
qed

lemma set_params_defaults:
  assumes "set_params env name est sc ex dr = Inr m"
  shows "m_name m = name \<and>
         (omits env ex ''overwrite'' \<longrightarrow> overwrite m = False) \<and>
         (omits env ex ''test_size'' \<longrightarrow> test_size m = 33 / 100) \<and>
         (omits env ex ''random_state'' \<longrightarrow> random_state m = 42) \<and>
         (omits env ex ''compress'' \<longrightarrow> compress m = 3) \<and>
         (omits env ex ''retain_data'' \<longrightarrow> retain_data m = False) \<and>
         (omits env ex ''debug'' \<longrightarrow> debug m = False)"
proof -
  from assms obtain m1 m2 m3 where
    m1: "set_execution_params env ex (configured_defaults name) = Inr m1" and
    m2: "set_scaler_params env sc m1 = Inr m2" and
    m3: "set_estimator_params env est m2 = Inr m3" and
    m: "set_reduction_params env dr m3 = Inr m"
    by (auto simp add: set_params_def bindE_Inr_iff)
  from set_execution_params_shape [OF m1]
  have "m_name m1 = name \<and>
         (omits env ex ''overwrite'' \<longrightarrow> overwrite m1 = False) \<and>
         (omits env ex ''test_size'' \<longrightarrow> test_size m1 = 33 / 100) \<and>
         (omits env ex ''random_state'' \<longrightarrow> random_state m1 = 42) \<and>
         (omits env ex ''compress'' \<longrightarrow> compress m1 = 3) \<and>
         (omits env ex ''retain_data'' \<longrightarrow> retain_data m1 = False) \<and>
         (omits env ex ''debug'' \<longrightarrow> debug m1 = False)"
    by (auto simp add: configured_defaults_def)
  with set_scaler_params_keeps [OF m2] set_estimator_params_keeps [OF m3]
    set_reduction_params_keeps [OF m]
  show ?thesis by simp
qed

lemma update_cache_lookup:
  "map_of (model_cache (update_cache r s)) (m_name (models s r)) = Some r"
  by (simp add: update_cache_def Let_def AList.update_conv')

lemma setup_model_success:
  assumes "request = setup_row dimred name est sc dr ex # rest"
    and "setup_model env dimred request s = (Inr response, s')"
  shows "\<exists>m. set_params env name est sc ex (if dimred then Some dr else None) = Inr m \<and>
             map_of (model_cache s') name = Some (next_model s) \<and>
             models s' (next_model s) = m\<lparr>dim_reduction := dimred, state_timestamp := Some (clock env)\<rparr>"
proof -
  from assms(2) obtain m where
    m: "set_params env name est sc ex (if dimred then Some dr else None) = Inr m" and
    run: "bindS (alloc_model (m\<lparr>dim_reduction := dimred\<rparr>)) (\<lambda>r.
           bindS (save_model env r) (\<lambda>r1.
           bindS (put_in_cache r1) (\<lambda>u.
           bindS (read_model r1) (\<lambda>m1.
           bindS (liftE (timestamp_text env m1)) (\<lambda>ts.
           returnS (message_frame [''model_name'', ''result'', ''time_stamp'']
                 [VStr (m_name m1), VStr ''Model successfully saved to disk'', VStr ts])))))) s
          = (Inr response, s')"
    unfolding setup_model_params [OF assms(1)] by (auto simp add: bindS_liftE_Inr_iff)
  let ?m = "m\<lparr>dim_reduction := dimred, state_timestamp := Some (clock env)\<rparr>"
  have name: "m_name m = name" using set_params_defaults [OF m] by simp
  from run have "\<exists>s2. s' = update_cache (next_model s) s2 \<and> models s2 (next_model s) = ?m"
    by (auto simp add: bindS_Inr_iff bindS_liftE_Inr_iff alloc_model_def new_model_def
         save_model_def save_def Let_def)
  then obtain s2 where s2: "s' = update_cache (next_model s) s2" "models s2 (next_model s) = ?m"
    by auto
  from update_cache_lookup [of "next_model s" s2] s2 name
  have "map_of (model_cache s') name = Some (next_model s)" by simp
  with m s2 show ?thesis by simp
qed

text \<open>
  C9. After a configure call that succeeds, the model cached under the name of the call
  has the default value of every execution parameter that the execution arguments
  omit (the argument string is empty, or the dictionary read from it has no such key):
  overwrite false, test\_size 0.33, random\_state 42, compress 3, retain\_data false, debug
  false. The keyword of the compression level is \<open>compress\<close>.
\<close>

theorem omitted_execution_args_default:
  assumes "request = setup_row dimred name est sc dr ex # rest"
    and "setup_model env dimred request s = (Inr response, s')"
  shows "\<exists>r. map_of (model_cache s') name = Some r \<and>
           (omits env ex ''overwrite'' \<longrightarrow> overwrite (models s' r) = False) \<and>
           (omits env ex ''test_size'' \<longrightarrow> test_size (models s' r) = 33 / 100) \<and>
           (omits env ex ''random_state'' \<longrightarrow> random_state (models s' r) = 42) \<and>
           (omits env ex ''compress'' \<longrightarrow> compress (models s' r) = 3) \<and>
           (omits env ex ''retain_data'' \<longrightarrow> retain_data (models s' r) = False) \<and>
           (omits env ex ''debug'' \<longrightarrow> debug (models s' r) = False)"
proof -
  from setup_model_success [OF assms] obtain m where
    m: "set_params env name est sc ex (if dimred then Some dr else None) = Inr m" and
    c: "map_of (model_cache s') name = Some (next_model s)" and
    v: "models s' (next_model s) = m\<lparr>dim_reduction := dimred, state_timestamp := Some (clock env)\<rparr>"
    by auto
  show ?thesis
    using c set_params_defaults [OF m] by (intro exI [of _ "next_model s"]) (simp add: v)
qed

definition setup_request :: "pyval list list" where
  \<comment> \<open>a configure call for the model m1 that sets only the size of the test set\<close>
  "setup_request =
     [setup_row False ''m1'' ''estimator=RandomForestClassifier''
        ''scaler=StandardScaler, missing=zeros, scale_hashed=true'' [] ''test_size=0.5'']"

definition s_setup :: "string state" where
  "s_setup = snd (setup_model demo_env False setup_request empty_state)"

lemma setup_run:
  "setup_model demo_env False setup_request empty_state =
     (Inr (message_frame [''model_name'', ''result'', ''time_stamp'']
             [VStr ''m1'', VStr ''Model successfully saved to disk'', VStr ''00:00:00'']),
      s_setup)"
proof -
  have "fst (setup_model demo_env False setup_request empty_state) =
     Inr (message_frame [''model_name'', ''result'', ''time_stamp'']
            [VStr ''m1'', VStr ''Model successfully saved to disk'', VStr ''00:00:00''])"
    by code_simp
  then show ?thesis by (simp add: s_setup_def prod_eq_iff)
qed

lemma s_setup_simps:
  "model_cache s_setup = [(''m1'', 0)]"
  "next_model s_setup = 1"
  "next_frame s_setup = 0"
  "models s_setup 0 =
     (configured_defaults ''m1'')\<lparr>test_size := 1 / 2,
        scaler := Some ''StandardScaler'', missing := Some ''zeros'', scale_hashed := Some True,
        scaler_kwargs := Some [], estimator := Some ''RandomForestClassifier'',
        estimator_kwargs := Some [], state_timestamp := Some 0\<rparr>"
  by code_simp+

theorem omitted_execution_args_default_witness:
  "setup_request =
     setup_row False ''m1'' ''estimator=RandomForestClassifier''
       ''scaler=StandardScaler, missing=zeros, scale_hashed=true'' [] ''test_size=0.5'' # [] \<and>
   setup_model demo_env False setup_request empty_state =
     (Inr (message_frame [''model_name'', ''result'', ''time_stamp'']
             [VStr ''m1'', VStr ''Model successfully saved to disk'', VStr ''00:00:00'']),
      s_setup) \<and>
   omits demo_env ''test_size=0.5'' ''overwrite'' \<and>
   omits demo_env ''test_size=0.5'' ''random_state'' \<and>
   omits demo_env ''test_size=0.5'' ''compress'' \<and>
   omits demo_env ''test_size=0.5'' ''retain_data'' \<and>
   omits demo_env ''test_size=0.5'' ''debug'' \<and>
   (\<exists>r. map_of (model_cache s_setup) ''m1'' = Some r \<and>
        overwrite (models s_setup r) = False \<and>
        random_state (models s_setup r) = 42 \<and>
        compress (models s_setup r) = 3 \<and>
        retain_data (models s_setup r) = False \<and>
        debug (models s_setup r) = False)"
proof -
  have r: "setup_request =
     setup_row False ''m1'' ''estimator=RandomForestClassifier''
       ''scaler=StandardScaler, missing=zeros, scale_hashed=true'' [] ''test_size=0.5'' # []"
    by (simp add: setup_request_def)
  have o: "omits demo_env ''test_size=0.5'' ''overwrite''"
    "omits demo_env ''test_size=0.5'' ''random_state''"
    "omits demo_env ''test_size=0.5'' ''compress''"
    "omits demo_env ''test_size=0.5'' ''retain_data''"
    "omits demo_env ''test_size=0.5'' ''debug''"
    by code_simp+
  from omitted_execution_args_default [OF r setup_run] o
  have "\<exists>r. map_of (model_cache s_setup) ''m1'' = Some r \<and>
        overwrite (models s_setup r) = False \<and>
        random_state (models s_setup r) = 42 \<and>
        compress (models s_setup r) = 3 \<and>
        retain_data (models s_setup r) = False \<and>
        debug (models s_setup r) = False"
    by auto
  with r setup_run o show ?thesis by simp
qed

subsection \<open>Columns of a frame\<close>

lemma col_pos_append_new: "col_pos c cols = None \<Longrightarrow> col_pos c (cols @ [c]) = Some (length cols)"
  by (induction cols) (auto split: if_splits)

lemma cell_at_put_cell [simp]: "cell_at (put_cell p v r) p = v"
proof -
  let ?pre = "take p r @ replicate (p - length r) VNone"
  have len: "length ?pre = p" by auto
  have eq: "put_cell p v r = ?pre @ v # drop (Suc p) r" by (simp add: put_cell_def)
  have "(?pre @ v # drop (Suc p) r) ! length ?pre = v" by (rule nth_append_length)
  then have nth: "put_cell p v r ! p = v" unfolding eq len .
  have "p < length (put_cell p v r)" unfolding eq using len by simp
  with nth show ?thesis unfolding cell_at_def by simp
qed

lemma length_put_cell_rows:
  "length vs = length rows \<Longrightarrow>
   length (map2 (\<lambda>(l, r) v. (l, put_cell i v r)) rows vs) = length rows"
  by simp

lemma column_of_put_cells:
  "length vs = length rows \<Longrightarrow>
   map (\<lambda>(l, r). cell_at r i) (map2 (\<lambda>(l, r) v. (l, put_cell i v r)) rows vs) = vs"
proof (induction rows arbitrary: vs)
  case Nil
  then show ?case by simp
next
  case (Cons row rows)
  then obtain v vs' where "vs = v # vs'" by (cases vs) auto
  with Cons show ?case by (cases row) simp
qed

lemma get_column_set_column:
  assumes "length vs = length (df_rows df)"
  shows "get_column (set_column df c vs) c = Inr vs"
proof (cases "col_pos c (df_columns df)")
  case None
  with assms show ?thesis
    by (simp add: get_column_def set_column_def col_pos_append_new column_of_put_cells del: map_map)
next
  case (Some i)
  with assms show ?thesis
    by (simp add: get_column_def set_column_def column_of_put_cells del: map_map)
qed

lemma length_rows_set_column:
  "length vs = length (df_rows df) \<Longrightarrow> length (df_rows (set_column df c vs)) = length (df_rows df)"
  by (cases "col_pos c (df_columns df)") (simp_all add: set_column_def)

lemma length_sort_order_values [simp]: "length (sort_order_values df) = length (df_rows df)"
  by (simp add: sort_order_values_def df_index_def)

subsection \<open>The model a handler works on is the one in the cache\<close>

lemma update_cache_holds: "r \<in> snd ` set (model_cache (update_cache r s))"
proof -
  have "map_of (model_cache (update_cache r s)) (m_name (models s r)) = Some r"
    by (simp add: update_cache_def Let_def AList.update_conv')
  then have "(m_name (models s r), r) \<in> set (model_cache (update_cache r s))"
    by (rule map_of_SomeD)
  then show ?thesis by force
qed

lemma get_model_cached:
  assumes "get_model name s = (Inr r, s1)"
  shows "r \<in> snd ` set (model_cache s1)"
proof (cases "map_of (model_cache s) name")
  case (Some r')
  with assms have "r' = r" "s1 = s" by (simp_all add: get_model_def)
  with Some have "(name, r) \<in> set (model_cache s1)" by (auto dest: map_of_SomeD)
  then show ?thesis by force
next
  case None
  with assms obtain s0 where "load name s = (Inr r, s0)" "s1 = update_cache r s0"
    by (auto simp add: get_model_def split: prod.splits sum.splits)
  then show ?thesis by (simp add: update_cache_holds)
qed

text \<open>
  C10. A get-features call that returns its response has changed the frame of feature
  definitions of the model it worked on, and nothing else: the model object \<open>r\<close>
  is held by the cache, it still points to the same frame object \<open>d\<close>, and that
  frame now has the column \<open>sort_order\<close> with the values 1, ..., n for its n rows, in
  the order of the rows.
\<close>

theorem get_features_adds_sort_order:
  assumes "get_features env request s = (Inr response, s')"
  shows "\<exists>name r d s1.
           get_model name s = (Inr r, s1) \<and>
           r \<in> snd ` set (model_cache s') \<and>
           models s' = models s1 \<and> model_cache s' = model_cache s1 \<and>
           features_df (models s' r) = Some d \<and>
           frames s' = (frames s1)(d := set_column (frames s1 d) (VStr ''sort_order'')
                                          (sort_order_values (frames s1 d))) \<and>
           length (df_rows (frames s' d)) = length (df_rows (frames s1 d)) \<and>
           get_column (frames s' d) (VStr ''sort_order'') =
             Inr (map (\<lambda>i. VInt (int i + 1)) [0..<length (df_rows (frames s1 d))])"
proof -
  from assms obtain rdf name r s1 d where
    g: "get_model name s = (Inr r, s1)" and
    d: "features_df (models s1 r) = Some d" and
    s': "s' = s1\<lparr>frames := (frames s1)(d := set_column (frames s1 d) (VStr ''sort_order'')
                                          (sort_order_values (frames s1 d)))\<rparr>"
    by (auto simp add: get_features_def bindS_Inr_iff bindS_liftE_Inr_iff attr_def
             split: option.splits sum.splits)
  have c: "r \<in> snd ` set (model_cache s')"
    using get_model_cached [OF g] by (simp add: s')
  have col: "get_column (frames s' d) (VStr ''sort_order'') = Inr (sort_order_values (frames s1 d))"
    by (simp add: s' get_column_set_column)
  have len: "length (df_rows (frames s' d)) = length (df_rows (frames s1 d))"
    by (simp add: s' length_rows_set_column)
  from g c d col len show ?thesis
    by (intro exI [of _ name] exI [of _ r] exI [of _ d] exI [of _ s1])
       (simp add: s' sort_order_values_def df_index_def)
qed

subsection \<open>Raising inside a handler\<close>

lemma bindS_raises:
  assumes "f s = (x, s)" and "\<And>a. x = Inr a \<Longrightarrow> \<exists>e. g a s = (Inl e, s)"
  shows "\<exists>e. bindS f g s = (Inl e, s)"
  using assms by (cases x) (auto simp add: bindS_def)

lemma bindS_store [simp]:
  "bindS (read_model r) g s = g (models s r) s"
  "bindS (read_frame d) h s = h (frames s d) s"
  by (simp_all add: bindS_def)

lemma read_features_apply [simp]: "read_features r s = (model_features s r, s)"
  by (simp add: read_features_def)

lemma feature_frame_reads: "snd (feature_frame env k rdf r s) = s"
  by (simp add: feature_frame_def)

lemma feature_frame_Inr:
  assumes "feature_frame env k rdf r s = (Inr X, s1)"
  shows "s1 = s \<and> (\<exists>fdf. model_features s r = Inr fdf)"
  using assms by (auto simp add: feature_frame_def bindE_Inr_iff)

lemma model_features_Some [simp]:
  "features_df (models s r) = Some d \<Longrightarrow> model_features s r = Inr (frames s d)"
  by (simp add: model_features_def)

lemma model_features_Inr:
  "model_features s r = Inr fdf \<longleftrightarrow> (\<exists>d. features_df (models s r) = Some d \<and> fdf = frames s d)"
  by (cases "features_df (models s r)") (auto simp add: model_features_def)

subsection \<open>Selecting rows\<close>

lemma select_rows_rows:
  assumes "select_rows df c p = Inr df'"
  shows "\<exists>i. col_pos c (df_columns df) = Some i \<and> df_columns df' = df_columns df \<and>
             df_rows df' = filter (\<lambda>(l, row). p (cell_at row i)) (df_rows df)"
  using assms by (auto simp add: select_rows_def split: option.splits)

lemma select_rows_none:
  assumes "get_column df c = Inr vs" and "\<not> (\<exists>v \<in> set vs. p v)"
    and "select_rows df c p = Inr df'"
  shows "df_rows df' = []"
  using assms
  by (auto simp add: get_column_def select_rows_def filter_empty_conv split: option.splits)

lemma first_label_empty: "df_rows df = [] \<Longrightarrow> first_label df = Inl IndexError"
  by (simp add: first_label_def df_index_def)

lemma target_data_no_target:
  assumes "get_column fdf (VStr ''variable_type'') = Inr roles"
    and "VStr ''target'' \<notin> set roles"
  shows "target_data tt fdf = Inl IndexError"
proof -
  have none: "\<not> (\<exists>v \<in> set roles. is_target v)"
    using assms(2) by (auto simp add: is_target_def)
  from assms(1) obtain target where
    t: "select_rows fdf (VStr ''variable_type'') is_target = Inr target"
    by (auto simp add: get_column_def select_rows_def split: option.splits)
  from select_rows_none [OF assms(1) none t] have "first_label target = Inl IndexError"
    by (rule first_label_empty)
  with t show ?thesis by (simp add: target_data_def)
qed

subsection \<open>The steps of fit\<close>

lemma fit_data_no_target:
  assumes "features_df (models s r) = Some d"
    and "get_column (frames s d) (VStr ''variable_type'') = Inr roles"
    and "VStr ''target'' \<notin> set roles"
  shows "\<exists>e. fit_data env r rdf s = (Inl e, s)"
  unfolding fit_data_def
proof (rule bindS_raises)
  show "feature_frame env 1 rdf r s = (fst (feature_frame env 1 rdf r s), s)"
    by (simp add: feature_frame_def)
next
  fix tt1
  from assms show "\<exists>e. bindS (read_features r)
              (\<lambda>fdf. bindS (liftE (target_data tt1 fdf))
                       (\<lambda>target_df.
                           bindS (liftE (select_rows fdf (VStr ''variable_type'') is_exclusion))
                            (\<lambda>excluded.
                                bindS (liftE (select_rows fdf (VStr ''variable_type'') (\<lambda>v. \<not> is_exclusion v)))
                                 (\<lambda>kept.
                                     bindS (alloc_frame kept)
                                      (\<lambda>d1. bindS (modify_model r (\<lambda>m. m\<lparr>features_df := Some d1\<rparr>))
                                              (\<lambda>u. bindS (liftE (select_columns tt1 (df_index kept)))
                                                      (\<lambda>tt2. returnS (tt2, target_df))))))))
              s = (Inl e, s)"
    by (simp add: bindS_def target_data_no_target)
qed

lemma fit_raises_in_data:
  assumes "request_df request [''strData'', ''strData''] [''model_name'', ''n_features''] = Inr rdf"
    and "loc0_str rdf ''model_name'' = Inr name"
    and "get_model name s = (Inr r, s1)"
    and "fit_data env r rdf s1 = (Inl e, s2)"
  shows "fit env request s = (Inl e, s2)"
  using assms by (simp add: fit_def bindS_def)

lemma alloc_frame_apply [simp]:
  "alloc_frame df s =
     (Inr (next_frame s), s\<lparr>frames := (frames s)(next_frame s := df), next_frame := Suc (next_frame s)\<rparr>)"
  by (simp add: alloc_frame_def new_frame_def)

lemma fit_data_Inr:
  assumes "fit_data env r rdf s = (Inr tt, s2)"
  shows "\<exists>d0 kept.
           features_df (models s r) = Some d0 \<and>
           select_rows (frames s d0) (VStr ''variable_type'') (\<lambda>v. \<not> is_exclusion v) = Inr kept \<and>
           frames s2 = (frames s)(next_frame s := kept) \<and>
           models s2 = (models s)(r := (models s r)\<lparr>features_df := Some (next_frame s)\<rparr>) \<and>
           model_cache s2 = model_cache s \<and> disk s2 = disk s"
proof -
  from assms obtain tt1 sa where
    ff: "feature_frame env 1 rdf r s = (Inr tt1, sa)" and
    rest: "bindS (read_features r) (\<lambda>fdf.
     bindS (liftE (target_data tt1 fdf)) (\<lambda>target_df.
     bindS (liftE (select_rows fdf (VStr ''variable_type'') is_exclusion)) (\<lambda>excluded.
     bindS (liftE (select_rows fdf (VStr ''variable_type'') (\<lambda>v. \<not> is_exclusion v))) (\<lambda>kept.
     bindS (alloc_frame kept) (\<lambda>d1.
     bindS (modify_model r (\<lambda>m. m\<lparr>features_df := Some d1\<rparr>)) (\<lambda>u.
     bindS (liftE (select_columns tt1 (df_index kept))) (\<lambda>tt2.
     returnS (tt2, target_df)))))))) sa = (Inr tt, s2)"
    unfolding fit_data_def bindS_Inr_iff by blast
  from feature_frame_Inr [OF ff] obtain d0 where
    sa: "sa = s" and d0: "features_df (models s r) = Some d0"
    by (auto simp add: model_features_Inr)
  from rest show ?thesis
    unfolding sa
    by (auto simp add: bindS_Inr_iff bindS_liftE_Inr_iff d0)
qed

definition same_contract :: "nat \<Rightarrow> 'o state \<Rightarrow> 'o state \<Rightarrow> bool" where
  \<comment> \<open>from \<open>a\<close> to \<open>b\<close>, the frames are unchanged and the model at \<open>r\<close> keeps its
      name and its pointer to the feature definitions\<close>
  "same_contract r a b =
     (frames b = frames a \<and> features_df (models b r) = features_df (models a r) \<and>
      m_name (models b r) = m_name (models a r))"

lemma fit_split_Inr:
  assumes "fit_split env r tt s = (Inr parts, s3)"
  shows "same_contract r s s3"
  using assms
  by (auto simp add: fit_split_def same_contract_def bindS_Inr_iff bindS_liftE_Inr_iff
           split: if_splits)

lemma fit_pipeline_Inr:
  assumes "fit_pipeline env r s = (Inr u, s4)"
  shows "same_contract r s s4"
  using assms
  by (auto simp add: fit_pipeline_def same_contract_def bindS_Inr_iff bindS_liftE_Inr_iff
           bindS_def split: if_splits sum.splits)

lemma save_model_apply:
  "save_model env r s =
     (Inr r, s\<lparr>models := (models s)(r := (models s r)\<lparr>state_timestamp := Some (clock env)\<rparr>),
              disk := (disk s)(m_name (models s r) :=
                Some \<lparr>snap_model = (models s r)\<lparr>state_timestamp := Some (clock env)\<rparr>,
                      snap_features = map_option (frames s) (features_df (models s r))\<rparr>)\<rparr>)"
  by (simp add: save_model_def save_def Let_def)

lemma fit_train_Inr:
  assumes "fit_train env r parts s = (Inr r1, s5)"
  shows "r1 = r \<and> same_contract r s s5 \<and>
         map_of (model_cache s5) (m_name (models s5 r)) = Some r \<and>
         disk s5 (m_name (models s5 r)) =
           Some \<lparr>snap_model = models s5 r,
                 snap_features = map_option (frames s5) (features_df (models s5 r))\<rparr>"
proof -
  obtain X_train X_test y_train y_test where p: "parts = (X_train, X_test, y_train, y_test)"
    by (cases parts) auto
  from assms obtain s4 where
    r1: "r1 = r" and s5: "s5 = update_cache r s4" and
    sc: "same_contract r s s4" and
    dk: "disk s4 (m_name (models s4 r)) =
           Some \<lparr>snap_model = models s4 r,
                 snap_features = map_option (frames s4) (features_df (models s4 r))\<rparr>"
    unfolding p fit_train_def
    by (auto simp add: bindS_Inr_iff bindS_liftE_Inr_iff save_model_apply same_contract_def)
  from sc dk update_cache_lookup [of r s4] show ?thesis
    by (simp add: r1 s5 same_contract_def)
qed

lemma fit_response_Inr:
  assumes "fit_response env r s = (Inr response, s')"
  shows "s' = s"
  using assms by (auto simp add: fit_response_def bindS_Inr_iff bindS_liftE_Inr_iff)

lemma fit_Inr:
  assumes "fit env request s = (Inr response, s')"
  shows "\<exists>rdf name r s1 tt s2 parts s3 s4.
           request_df request [''strData'', ''strData''] [''model_name'', ''n_features''] = Inr rdf \<and>
           loc0_str rdf ''model_name'' = Inr name \<and>
           get_model name s = (Inr r, s1) \<and>
           fit_data env r rdf s1 = (Inr tt, s2) \<and>
           fit_split env r tt s2 = (Inr parts, s3) \<and>
           fit_pipeline env r s3 = (Inr (), s4) \<and>
           fit_train env r parts s4 = (Inr r, s')"
proof -
  from assms obtain rdf name r s1 tt s2 parts s3 s4 r1 s5 where
    a: "request_df request [''strData'', ''strData''] [''model_name'', ''n_features''] = Inr rdf"
       "loc0_str rdf ''model_name'' = Inr name"
       "get_model name s = (Inr r, s1)"
       "fit_data env r rdf s1 = (Inr tt, s2)"
       "fit_split env r tt s2 = (Inr parts, s3)"
       "fit_pipeline env r s3 = (Inr (), s4)" and
    t: "fit_train env r parts s4 = (Inr r1, s5)" and
    f: "fit_response env r1 s5 = (Inr response, s')"
    by (auto simp add: fit_def bindS_Inr_iff bindS_liftE_Inr_iff)
  from fit_train_Inr [OF t] fit_response_Inr [OF f] t have "fit_train env r parts s4 = (Inr r, s')"
    by simp
  with a show ?thesis by (intro exI conjI) assumption+
qed

definition features_columns :: "pyval list" where
  \<comment> \<open>the columns of the response of get\_features\<close>
  "features_columns =
     [VStr ''model_name'', VStr ''sort_order'', VStr ''name'', VStr ''variable_type'',
      VStr ''data_type'', VStr ''feature_strategy'', VStr ''hash_features'']"

lemma get_features_cached:
  assumes "map_of (model_cache s) n = Some r" and "features_df (models s r) = Some d"
  shows "fst (get_features env [[VStr n]] s) =
           select_columns (set_column (frames s d) (VStr ''sort_order'')
                             (sort_order_values (frames s d))) features_columns"
proof -
  have "request_df [[VStr n]] [''strData''] [''model_name''] =
          Inr \<lparr>df_columns = [VStr ''model_name''], df_rows = [(VInt 0, [VStr n])]\<rparr>"
    by (simp add: request_df_def cell_matches_def)
  moreover have "loc0_str \<lparr>df_columns = [VStr ''model_name''], df_rows = [(VInt 0, [VStr n])]\<rparr>
                   ''model_name'' = Inr n"
    by (rule loc0_str_first)
  moreover have "get_model n s = (Inr r, s)"
    using assms(1) by (rule get_model_hit)
  ultimately show ?thesis
    by (simp add: get_features_def bindS_Inr assms(2) features_columns_def)
qed

lemma select_columns_index:
  "select_columns df cs = Inr df' \<Longrightarrow> df_index df' = df_index df"
  by (auto simp add: select_columns_def df_index_def split: sum.splits)

lemma labels_of_put_cells:
  "length vs = length rows \<Longrightarrow>
   map fst (map2 (\<lambda>(l, r) v. (l, put_cell i v r)) rows vs) = map fst rows"
proof (induction rows arbitrary: vs)
  case Nil
  then show ?case by simp
next
  case (Cons row rows)
  then obtain v vs' where "vs = v # vs'" by (cases vs) auto
  with Cons show ?case by (cases row) simp
qed

lemma set_column_index:
  "length vs = length (df_rows df) \<Longrightarrow> df_index (set_column df c vs) = df_index df"
  by (cases "col_pos c (df_columns df)")
     (simp_all add: set_column_def df_index_def labels_of_put_cells del: map_map)

text \<open>
  C7. A train call that succeeds leaves the model \<open>r\<close> it worked on with a new frame
  of feature definitions, \<open>kept\<close>: the rows of the frame it had before, in their
  order, without those whose variable type is \<open>excluded\<close>, \<open>target\<close> or
  \<open>identifier\<close>. The model in the cache points to this frame, the snapshot saved under
  the name of the model holds it, and a get-features call for that name answers from it:
  its response is the selection of the response columns from \<open>kept\<close> with its sort
  order, so it has one row for each remaining definition and no other.
\<close>

theorem fit_removes_excluded_features:
  assumes "fit env request s = (Inr response, s')"
  shows "\<exists>name r s1 d0 d kept i.
           get_model name s = (Inr r, s1) \<and> features_df (models s1 r) = Some d0 \<and>
           col_pos (VStr ''variable_type'') (df_columns (frames s1 d0)) = Some i \<and>
           df_columns kept = df_columns (frames s1 d0) \<and>
           df_rows kept = filter (\<lambda>(l, row). \<not> is_exclusion (cell_at row i)) (df_rows (frames s1 d0)) \<and>
           features_df (models s' r) = Some d \<and> frames s' d = kept \<and>
           map_of (model_cache s') (m_name (models s' r)) = Some r \<and>
           disk s' (m_name (models s' r)) =
             Some \<lparr>snap_model = models s' r, snap_features = Some kept\<rparr> \<and>
           fst (get_features env [[VStr (m_name (models s' r))]] s') =
             select_columns (set_column kept (VStr ''sort_order'') (sort_order_values kept))
               features_columns \<and>
           (\<forall>listed. fst (get_features env [[VStr (m_name (models s' r))]] s') = Inr listed
              \<longrightarrow> df_index listed = df_index kept)"
proof -
  from fit_Inr [OF assms] obtain rdf name r s1 tt s2 parts s3 s4 where
    g: "get_model name s = (Inr r, s1)" and
    fd: "fit_data env r rdf s1 = (Inr tt, s2)" and
    fs: "fit_split env r tt s2 = (Inr parts, s3)" and
    fp: "fit_pipeline env r s3 = (Inr (), s4)" and
    ft: "fit_train env r parts s4 = (Inr r, s')"
    by auto
  from fit_data_Inr [OF fd] obtain d0 kept where
    d0: "features_df (models s1 r) = Some d0" and
    k: "select_rows (frames s1 d0) (VStr ''variable_type'') (\<lambda>v. \<not> is_exclusion v) = Inr kept" and
    f2: "frames s2 = (frames s1)(next_frame s1 := kept)" and
    m2: "models s2 = (models s1)(r := (models s1 r)\<lparr>features_df := Some (next_frame s1)\<rparr>)"
    by auto
  from select_rows_rows [OF k] obtain i where
    i: "col_pos (VStr ''variable_type'') (df_columns (frames s1 d0)) = Some i"
       "df_columns kept = df_columns (frames s1 d0)"
       "df_rows kept = filter (\<lambda>(l, row). \<not> is_exclusion (cell_at row i)) (df_rows (frames s1 d0))"
    by auto
  from fit_train_Inr [OF ft]
  have t: "same_contract r s4 s'"
    and c: "map_of (model_cache s') (m_name (models s' r)) = Some r"
    and dk: "disk s' (m_name (models s' r)) =
           Some \<lparr>snap_model = models s' r,
                 snap_features = map_option (frames s') (features_df (models s' r))\<rparr>"
    by auto
  from fit_split_Inr [OF fs] fit_pipeline_Inr [OF fp] t
  have sc: "frames s' = frames s2" "features_df (models s' r) = features_df (models s2 r)"
    by (simp_all add: same_contract_def)
  have d: "features_df (models s' r) = Some (next_frame s1)"
    by (simp add: sc m2)
  have fr: "frames s' (next_frame s1) = kept"
    by (simp add: sc f2)
  have snap: "disk s' (m_name (models s' r)) =
           Some \<lparr>snap_model = models s' r, snap_features = Some kept\<rparr>"
    using dk by (simp add: d fr)
  have gf: "fst (get_features env [[VStr (m_name (models s' r))]] s') =
             select_columns (set_column kept (VStr ''sort_order'') (sort_order_values kept))
               features_columns"
    using get_features_cached [OF c d] by (simp add: fr)
  have idx: "\<forall>listed. fst (get_features env [[VStr (m_name (models s' r))]] s') = Inr listed
              \<longrightarrow> df_index listed = df_index kept"
    unfolding gf by (auto dest!: select_columns_index simp add: set_column_index)
  from g d0 i d fr c snap gf idx show ?thesis
    by (intro exI [of _ name] exI [of _ r] exI [of _ s1] exI [of _ d0]
          exI [of _ "next_frame s1"] exI [of _ kept] exI [of _ i] conjI) assumption+
qed

definition features_request :: "pyval list list" where
  \<comment> \<open>the feature definitions of m1: an identifier, two features and a target\<close>
  "features_request =
     [[VStr ''m1'', VStr ''id'', VStr ''identifier'', VStr ''str'', VStr ''none'', VFloat 0],
      [VStr ''m1'', VStr ''f1'', VStr ''feature'', VStr ''float'', VStr ''scaling'', VFloat 0],
      [VStr ''m1'', VStr ''y'', VStr ''target'', VStr ''int'', VStr ''none'', VFloat 0],
      [VStr ''m1'', VStr ''f2'', VStr ''feature'', VStr ''float'', VStr ''scaling'', VFloat 0]]"

definition s_feat :: "string state" where
  "s_feat = snd (set_features demo_env features_request s_setup)"

definition features_query :: "pyval list list" where
  "features_query = [[VStr ''m1'']]"

definition s_listed :: "string state" where
  "s_listed = snd (get_features demo_env features_query s_feat)"

definition m1_model :: "string model" where
  \<comment> \<open>the model m1 as the configure call and the call of set\_features above leave it\<close>
  "m1_model =
     (configured_defaults ''m1'')\<lparr>test_size := 1 / 2,
        scaler := Some ''StandardScaler'', missing := Some ''zeros'', scale_hashed := Some True,
        scaler_kwargs := Some [], estimator := Some ''RandomForestClassifier'',
        estimator_kwargs := Some [], features_df := Some 0, state_timestamp := Some 0\<rparr>"

definition features_frame :: "pyval list list \<Rightarrow> dataframe" where
  \<comment> \<open>the frame of feature definitions that set\_features makes of the rows of its request\<close>
  "features_frame rows =
     \<lparr>df_columns = [VStr ''model_name'', VStr ''name'', VStr ''variable_type'', VStr ''data_type'',
                     VStr ''feature_strategy'', VStr ''hash_features''],
      df_rows = map (\<lambda>row. (cell_at row 1, row)) rows\<rparr>"

definition defined_state :: "pyval list list \<Rightarrow> string state" where
  \<comment> \<open>m1, with the feature definitions of the given rows, is the one model in the cache;
      nothing is on disk\<close>
  "defined_state rows =
     \<lparr>models = (\<lambda>r. m1_model), frames = (\<lambda>d. features_frame rows),
      next_model = 1, next_frame = 1, model_cache = [(''m1'', 0)], disk = (\<lambda>n. None)\<rparr>"

definition fit_request :: "pyval list list" where
  \<comment> \<open>two samples for the feature definitions id, f1, y, f2\<close>
  "fit_request = [[VStr ''m1'', VStr ''a|1.0|0|2.0''], [VStr ''m1'', VStr ''b|3.0|1|4.0'']]"

definition no_target_features :: "pyval list list" where
  \<comment> \<open>feature definitions without a target\<close>
  "no_target_features =
     [[VStr ''m1'', VStr ''id'', VStr ''identifier'', VStr ''str'', VStr ''none'', VFloat 0],
      [VStr ''m1'', VStr ''f1'', VStr ''feature'', VStr ''float'', VStr ''scaling'', VFloat 0]]"

definition no_target_fit_request :: "pyval list list" where
  "no_target_fit_request = [[VStr ''m1'', VStr ''a|1.0''], [VStr ''m1'', VStr ''b|3.0'']]"

definition no_target_fit_frame :: dataframe where
  "no_target_fit_frame =
     \<lparr>df_columns = [VStr ''model_name'', VStr ''n_features''],
      df_rows = [(VInt 0, [VStr ''m1'', VStr ''a|1.0'']), (VInt 1, [VStr ''m1'', VStr ''b|3.0''])]\<rparr>"

definition two_target_features :: "pyval list list" where
  \<comment> \<open>feature definitions with two targets\<close>
  "two_target_features =
     [[VStr ''m1'', VStr ''f1'', VStr ''feature'', VStr ''float'', VStr ''scaling'', VFloat 0],
      [VStr ''m1'', VStr ''y'', VStr ''target'', VStr ''int'', VStr ''none'', VFloat 0],
      [VStr ''m1'', VStr ''y2'', VStr ''target'', VStr ''int'', VStr ''none'', VFloat 0]]"

definition two_target_fit_request :: "pyval list list" where
  "two_target_fit_request = [[VStr ''m1'', VStr ''1.0|0|1''], [VStr ''m1'', VStr ''3.0|1|0'']]"

lemma defined_state_is_s_feat:
  "model_cache s_feat = model_cache (defined_state features_request)"
  "models s_feat 0 = models (defined_state features_request) 0"
  "frames s_feat 0 = frames (defined_state features_request) 0"
  "next_model s_feat = next_model (defined_state features_request)"
  "next_frame s_feat = next_frame (defined_state features_request)"
  by code_simp+

theorem get_features_adds_sort_order_witness:
  "get_features demo_env features_query s_feat =
     (Inr \<lparr>df_columns = features_columns,
           df_rows =
             [(VStr ''id'', [VStr ''m1'', VInt 1, VStr ''id'', VStr ''identifier'', VStr ''str'', VStr ''none'', VFloat 0]),
              (VStr ''f1'', [VStr ''m1'', VInt 2, VStr ''f1'', VStr ''feature'', VStr ''float'', VStr ''scaling'', VFloat 0]),
              (VStr ''y'', [VStr ''m1'', VInt 3, VStr ''y'', VStr ''target'', VStr ''int'', VStr ''none'', VFloat 0]),
              (VStr ''f2'', [VStr ''m1'', VInt 4, VStr ''f2'', VStr ''feature'', VStr ''float'', VStr ''scaling'', VFloat 0])]\<rparr>,
      s_listed) \<and>
   (\<exists>name r d s1.
       get_model name s_feat = (Inr r, s1) \<and>
       r \<in> snd ` set (model_cache s_listed) \<and>
       models s_listed = models s1 \<and> model_cache s_listed = model_cache s1 \<and>
       features_df (models s_listed r) = Some d \<and>
       frames s_listed = (frames s1)(d := set_column (frames s1 d) (VStr ''sort_order'')
                                          (sort_order_values (frames s1 d))) \<and>
       length (df_rows (frames s_listed d)) = length (df_rows (frames s1 d)) \<and>
       get_column (frames s_listed d) (VStr ''sort_order'') =
         Inr (map (\<lambda>i. VInt (int i + 1)) [0..<length (df_rows (frames s1 d))]))"
proof -
  have "fst (get_features demo_env features_query s_feat) =
     Inr \<lparr>df_columns = features_columns,
           df_rows =
             [(VStr ''id'', [VStr ''m1'', VInt 1, VStr ''id'', VStr ''identifier'', VStr ''str'', VStr ''none'', VFloat 0]),
              (VStr ''f1'', [VStr ''m1'', VInt 2, VStr ''f1'', VStr ''feature'', VStr ''float'', VStr ''scaling'', VFloat 0]),
              (VStr ''y'', [VStr ''m1'', VInt 3, VStr ''y'', VStr ''target'', VStr ''int'', VStr ''none'', VFloat 0]),
              (VStr ''f2'', [VStr ''m1'', VInt 4, VStr ''f2'', VStr ''feature'', VStr ''float'', VStr ''scaling'', VFloat 0])]\<rparr>"
    by code_simp
  then have run: "get_features demo_env features_query s_feat =
     (Inr \<lparr>df_columns = features_columns,
           df_rows =
             [(VStr ''id'', [VStr ''m1'', VInt 1, VStr ''id'', VStr ''identifier'', VStr ''str'', VStr ''none'', VFloat 0]),
              (VStr ''f1'', [VStr ''m1'', VInt 2, VStr ''f1'', VStr ''feature'', VStr ''float'', VStr ''scaling'', VFloat 0]),
              (VStr ''y'', [VStr ''m1'', VInt 3, VStr ''y'', VStr ''target'', VStr ''int'', VStr ''none'', VFloat 0]),
              (VStr ''f2'', [VStr ''m1'', VInt 4, VStr ''f2'', VStr ''feature'', VStr ''float'', VStr ''scaling'', VFloat 0])]\<rparr>,
      s_listed)"
    by (simp add: s_listed_def prod_eq_iff)
  from run get_features_adds_sort_order [OF run] show ?thesis by (rule conjI)
qed

text \<open>
  C4, as the code has it. A train call for a model whose feature definitions have no row
  of variable type \<open>target\<close> raises an exception, and the state is the one left by the
  lookup of the model: nothing is trained, saved or changed in the model. Once the
  frame of the training data is built, the exception is the IndexError of reading the
  first target.
\<close>

theorem fit_without_target_raises:
  assumes "request_df request [''strData'', ''strData''] [''model_name'', ''n_features''] = Inr rdf"
    and "loc0_str rdf ''model_name'' = Inr name"
    and "get_model name s = (Inr r, s1)"
    and "features_df (models s1 r) = Some d"
    and "get_column (frames s1 d) (VStr ''variable_type'') = Inr roles"
    and "VStr ''target'' \<notin> set roles"
  shows "(\<exists>e. fit env request s = (Inl e, s1)) \<and>
         (\<forall>X. feature_frame env 1 rdf r s1 = (Inr X, s1) \<longrightarrow>
              fit env request s = (Inl IndexError, s1))"
proof (intro conjI allI impI)
  from fit_data_no_target [OF assms(4-6)] obtain e where "fit_data env r rdf s1 = (Inl e, s1)"
    by blast
  from fit_raises_in_data [OF assms(1-3) this] show "\<exists>e. fit env request s = (Inl e, s1)"
    by blast
next
  fix X
  assume "feature_frame env 1 rdf r s1 = (Inr X, s1)"
  then have "fit_data env r rdf s1 = (Inl IndexError, s1)"
    using assms(4-6) by (simp add: fit_data_def bindS_Inr bindS_def target_data_no_target)
  from fit_raises_in_data [OF assms(1-3) this] show "fit env request s = (Inl IndexError, s1)" .
qed

lemma no_target_state_simps:
  "model_cache (defined_state no_target_features) = [(''m1'', 0)]"
  "features_df (models (defined_state no_target_features) 0) = Some 0"
  "get_column (frames (defined_state no_target_features) 0) (VStr ''variable_type'') =
     Inr [VStr ''identifier'', VStr ''feature'']"
  by code_simp+

theorem fit_without_target_raises_witness:
  "request_df no_target_fit_request [''strData'', ''strData''] [''model_name'', ''n_features''] =
     Inr no_target_fit_frame \<and>
   loc0_str no_target_fit_frame ''model_name'' = Inr ''m1'' \<and>
   get_model ''m1'' (defined_state no_target_features) = (Inr 0, defined_state no_target_features) \<and>
   features_df (models (defined_state no_target_features) 0) = Some 0 \<and>
   get_column (frames (defined_state no_target_features) 0) (VStr ''variable_type'') =
     Inr [VStr ''identifier'', VStr ''feature''] \<and>
   VStr ''target'' \<notin> set [VStr ''identifier'', VStr ''feature''] \<and>
   feature_frame demo_env 1 no_target_fit_frame 0 (defined_state no_target_features) =
     (Inr \<lparr>df_columns = [VStr ''id'', VStr ''f1''],
           df_rows = [(VInt 0, [VStr ''a'', VStr ''1.0'']), (VInt 1, [VStr ''b'', VStr ''3.0''])]\<rparr>,
      defined_state no_target_features) \<and>
   (\<exists>e. fit demo_env no_target_fit_request (defined_state no_target_features) =
          (Inl e, defined_state no_target_features)) \<and>
   fit demo_env no_target_fit_request (defined_state no_target_features) =
     (Inl IndexError, defined_state no_target_features)"
proof -
  let ?s = "defined_state no_target_features"
  have h1: "request_df no_target_fit_request [''strData'', ''strData''] [''model_name'', ''n_features''] =
     Inr no_target_fit_frame"
    by code_simp
  have h2: "loc0_str no_target_fit_frame ''model_name'' = Inr ''m1''"
    by code_simp
  have h3: "get_model ''m1'' ?s = (Inr 0, ?s)"
    by (rule get_model_hit) (simp add: no_target_state_simps)
  note h4 = no_target_state_simps(2)
  note h5 = no_target_state_simps(3)
  have h6: "VStr ''target'' \<notin> set [VStr ''identifier'', VStr ''feature'']"
    by simp
  have "fst (feature_frame demo_env 1 no_target_fit_frame 0 ?s) =
     Inr \<lparr>df_columns = [VStr ''id'', VStr ''f1''],
           df_rows = [(VInt 0, [VStr ''a'', VStr ''1.0'']), (VInt 1, [VStr ''b'', VStr ''3.0''])]\<rparr>"
    by code_simp
  then have h7: "feature_frame demo_env 1 no_target_fit_frame 0 ?s =
     (Inr \<lparr>df_columns = [VStr ''id'', VStr ''f1''],
           df_rows = [(VInt 0, [VStr ''a'', VStr ''1.0'']), (VInt 1, [VStr ''b'', VStr ''3.0''])]\<rparr>,
      ?s)"
    by (simp add: prod_eq_iff feature_frame_reads)
  note t = fit_without_target_raises [OF h1 h2 h3 h4 h5 h6, of demo_env]
  from t have c1: "\<exists>e. fit demo_env no_target_fit_request ?s = (Inl e, ?s)"
    by (rule conjunct1)
  from t have "\<forall>X. feature_frame demo_env 1 no_target_fit_frame 0 ?s = (Inr X, ?s) \<longrightarrow>
      fit demo_env no_target_fit_request ?s = (Inl IndexError, ?s)"
    by (rule conjunct2)
  with h7 have c2: "fit demo_env no_target_fit_request ?s = (Inl IndexError, ?s)"
    by simp
  from h1 h2 h3 h4 h5 h6 h7 c1 c2 show ?thesis
    by (intro conjI)
qed

text \<open>
  C4, as the spec states it, fails for a model with two targets: the train call on the
  feature definitions f1 (feature), y (target), y2 (target) returns its response, having
  trained on y.
\<close>

theorem two_targets_counterexample:
  "get_column (frames (defined_state two_target_features) 0) (VStr ''variable_type'') =
     Inr [VStr ''feature'', VStr ''target'', VStr ''target''] \<and>
   fst (get_model ''m1'' (defined_state two_target_features)) = Inr 0 \<and>
   features_df (models (defined_state two_target_features) 0) = Some 0 \<and>
   fst (fit demo_env two_target_fit_request (defined_state two_target_features)) =
     Inr (message_frame [''model_name'', ''result'', ''time_stamp'', ''score_result'', ''score'']
            [VStr ''m1'', VStr ''Model successfully trained, tested and saved to disk.'',
             VStr ''00:00:00'',
             VStr ''RandomForestClassifier model has a 1.000 accuracy against the test data.'',
             VFloat 1])"
  by code_simp

definition s_trained :: "string state" where
  "s_trained = snd (fit demo_env fit_request (defined_state features_request))"

lemma fit_run:
  "fit demo_env fit_request (defined_state features_request) =
     (Inr (message_frame [''model_name'', ''result'', ''time_stamp'', ''score_result'', ''score'']
            [VStr ''m1'', VStr ''Model successfully trained, tested and saved to disk.'',
             VStr ''00:00:00'',
             VStr ''RandomForestClassifier model has a 1.000 accuracy against the test data.'',
             VFloat 1]),
      s_trained)"
proof -
  have "fst (fit demo_env fit_request (defined_state features_request)) =
     Inr (message_frame [''model_name'', ''result'', ''time_stamp'', ''score_result'', ''score'']
            [VStr ''m1'', VStr ''Model successfully trained, tested and saved to disk.'',
             VStr ''00:00:00'',
             VStr ''RandomForestClassifier model has a 1.000 accuracy against the test data.'',
             VFloat 1])"
    by code_simp
  then show ?thesis by (simp add: s_trained_def prod_eq_iff)
qed

theorem fit_removes_excluded_features_witness:
  "fit demo_env fit_request (defined_state features_request) =
     (Inr (message_frame [''model_name'', ''result'', ''time_stamp'', ''score_result'', ''score'']
            [VStr ''m1'', VStr ''Model successfully trained, tested and saved to disk.'',
             VStr ''00:00:00'',
             VStr ''RandomForestClassifier model has a 1.000 accuracy against the test data.'',
             VFloat 1]),
      s_trained) \<and>
   (\<exists>name r s1 d0 d kept i.
       get_model name (defined_state features_request) = (Inr r, s1) \<and>
       features_df (models s1 r) = Some d0 \<and>
       col_pos (VStr ''variable_type'') (df_columns (frames s1 d0)) = Some i \<and>
       df_columns kept = df_columns (frames s1 d0) \<and>
       df_rows kept = filter (\<lambda>(l, row). \<not> is_exclusion (cell_at row i)) (df_rows (frames s1 d0)) \<and>
       features_df (models s_trained r) = Some d \<and> frames s_trained d = kept \<and>
       map_of (model_cache s_trained) (m_name (models s_trained r)) = Some r \<and>
       disk s_trained (m_name (models s_trained r)) =
         Some \<lparr>snap_model = models s_trained r, snap_features = Some kept\<rparr> \<and>
       fst (get_features demo_env [[VStr (m_name (models s_trained r))]] s_trained) =
         select_columns (set_column kept (VStr ''sort_order'') (sort_order_values kept))
           features_columns \<and>
       (\<forall>listed. fst (get_features demo_env [[VStr (m_name (models s_trained r))]] s_trained) = Inr listed
          \<longrightarrow> df_index listed = df_index kept)) \<and>
   fst (get_features demo_env [[VStr ''m1'']] s_trained) =
     Inr \<lparr>df_columns = features_columns,
           df_rows =
             [(VStr ''f1'', [VStr ''m1'', VInt 1, VStr ''f1'', VStr ''feature'', VStr ''float'', VStr ''scaling'', VFloat 0]),
              (VStr ''f2'', [VStr ''m1'', VInt 2, VStr ''f2'', VStr ''feature'', VStr ''float'', VStr ''scaling'', VFloat 0])]\<rparr>"
proof -
  have listed: "fst (get_features demo_env [[VStr ''m1'']] s_trained) =
     Inr \<lparr>df_columns = features_columns,
           df_rows =
             [(VStr ''f1'', [VStr ''m1'', VInt 1, VStr ''f1'', VStr ''feature'', VStr ''float'', VStr ''scaling'', VFloat 0]),
              (VStr ''f2'', [VStr ''m1'', VInt 2, VStr ''f2'', VStr ''feature'', VStr ''float'', VStr ''scaling'', VFloat 0])]\<rparr>"
    by code_simp
  from fit_run fit_removes_excluded_features [OF fit_run] listed show ?thesis
    by (intro conjI)
qed

subsection \<open>Prediction without a pipeline\<close>

lemma predict_values_no_pipe:
  "pipe m = None \<Longrightarrow> predict_values env m variant X = Inl (AttributeError ''pipe'')"
  by (simp add: predict_values_def)

lemma feature_frame_result: "feature_frame env k rdf r s = (fst (feature_frame env k rdf r s), s)"
  by (simp add: feature_frame_def)

lemma predict_after_lookup:
  assumes "request_df request
             (if load_script then [''strData'', ''strData'', ''strData''] else [''strData'', ''strData''])
             (if load_script then [''model_name'', ''key'', ''n_features'']
              else [''model_name'', ''n_features'']) = Inr rdf0"
    and "loc0_str rdf0 ''model_name'' = Inr name"
    and "get_model name s = (Inr r, s1)"
  shows "predict env load_script variant request s =
           bindS (liftE (if load_script then set_index rdf0 (VStr ''key'') else Inr rdf0)) (\<lambda>rdf.
           bindS (feature_frame env (if load_script then 2 else 1) rdf r) (\<lambda>X.
           bindS (read_model r) (\<lambda>m.
           bindS (liftE (predict_values env m variant X)) (\<lambda>y.
           bindS (liftE (result_frame y (df_index X))) (\<lambda>response.
           liftE (if load_script then join_drop env rdf response (VStr ''n_features'')
                  else select_columns response [VStr ''result'']))))))
             s1"
  using assms by (simp add: predict_def Let_def bindS_Inr)


definition predict_request :: "pyval list list" where
  \<comment> \<open>one sample for the feature definitions id, f1, y, f2, sent from a chart expression\<close>
  "predict_request = [[VStr ''m1'', VStr ''a|1.0|0|2.0'']]"

definition predict_frame :: dataframe where
  "predict_frame =
     \<lparr>df_columns = [VStr ''model_name'', VStr ''n_features''],
      df_rows = [(VInt 0, [VStr ''m1'', VStr ''a|1.0|0|2.0''])]\<rparr>"

lemma defined_state_simps:
  "model_cache (defined_state features_request) = [(''m1'', 0)]"
  "pipe (models (defined_state features_request) 0) = None"
  by code_simp+


subsection \<open>Names that are not in the registry\<close>

lemma make_estimator_unknown:
  "estimator m = Some e \<Longrightarrow> e \<notin> set algorithms \<Longrightarrow> make_estimator env m = Inl (KeyError (VStr e))"
  by (simp add: make_estimator_def registry_lookup_def)

lemma make_reduction_unknown:
  "reduction m = Some e \<Longrightarrow> e \<notin> set decomposers \<Longrightarrow> make_reduction env m = Inl (KeyError (VStr e))"
  by (simp add: make_reduction_def registry_lookup_def)

lemma fit_data_keeps_selection:
  assumes "fit_data env r rdf s = (Inr tt, s2)"
  shows "estimator (models s2 r) = estimator (models s r) \<and>
         reduction (models s2 r) = reduction (models s r) \<and>
         dim_reduction (models s2 r) = dim_reduction (models s r)"
  using fit_data_Inr [OF assms] by auto

lemma fit_split_keeps_selection:
  assumes "fit_split env r tt s = (Inr parts, s3)"
  shows "estimator (models s3 r) = estimator (models s r) \<and>
         reduction (models s3 r) = reduction (models s r) \<and>
         dim_reduction (models s3 r) = dim_reduction (models s r)"
  using assms
  by (auto simp add: fit_split_def bindS_Inr_iff bindS_liftE_Inr_iff split: if_splits)

lemma fit_pipeline_estimator_unknown:
  assumes "estimator (models s r) = Some e" and "e \<notin> set algorithms"
    and "model_features s r = Inr fdf" and "make_preprocessor env (models s r) fdf = Inr prep"
  shows "fit_pipeline env r s = (Inl (KeyError (VStr e)), s)"
  using assms by (simp add: fit_pipeline_def bindS_def make_estimator_unknown)

lemma fit_pipeline_reduction_unknown:
  assumes "dim_reduction (models s r)" and "reduction (models s r) = Some e"
    and "e \<notin> set decomposers"
    and "model_features s r = Inr fdf" and "make_preprocessor env (models s r) fdf = Inr prep"
    and "make_estimator env (models s r) = Inr est"
  shows "fst (fit_pipeline env r s) = Inl (KeyError (VStr e))"
  using assms by (simp add: fit_pipeline_def bindS_def make_reduction_unknown)

lemma fit_pipeline_builds:
  assumes "fit_pipeline env r s = (Inr u, s4)"
  shows "(\<exists>est. make_estimator env (models s r) = Inr est) \<and>
         (dim_reduction (models s r) \<longrightarrow> (\<exists>red. make_reduction env (models s r) = Inr red))"
  using assms
  by (auto simp add: fit_pipeline_def bindS_Inr_iff bindS_liftE_Inr_iff bindS_def
           split: if_splits sum.splits)

lemma fit_after_split:
  assumes "request_df request [''strData'', ''strData''] [''model_name'', ''n_features''] = Inr rdf"
    and "loc0_str rdf ''model_name'' = Inr name"
    and "get_model name s = (Inr r, s1)"
    and "fit_data env r rdf s1 = (Inr tt, s2)"
    and "fit_split env r tt s2 = (Inr parts, s3)"
  shows "fit env request s =
           bindS (fit_pipeline env r) (\<lambda>u.
           bindS (fit_train env r parts) (\<lambda>r1.
           fit_response env r1)) s3"
  using assms by (simp add: fit_def bindS_def)

lemma fit_unknown_raises:
  assumes "request_df request [''strData'', ''strData''] [''model_name'', ''n_features''] = Inr rdf"
    and "loc0_str rdf ''model_name'' = Inr name"
    and "get_model name s = (Inr r, s1)"
    and "(\<exists>e. estimator (models s1 r) = Some e \<and> e \<notin> set algorithms) \<or>
         (dim_reduction (models s1 r) \<and> (\<exists>e. reduction (models s1 r) = Some e \<and> e \<notin> set decomposers))"
  shows "\<exists>err s'. fit env request s = (Inl err, s')"
proof (cases "fit env request s")
  case (Pair x s')
  show ?thesis
  proof (cases x)
    case (Inl err)
    with Pair show ?thesis by auto
  next
    case (Inr response)
    with Pair have ok: "fit env request s = (Inr response, s')" by simp
    from fit_Inr [OF ok] obtain rdf' name' r' s1' tt s2 parts s3 s4 where
      a: "request_df request [''strData'', ''strData''] [''model_name'', ''n_features''] = Inr rdf'"
         "loc0_str rdf' ''model_name'' = Inr name'"
         "get_model name' s = (Inr r', s1')" and
      fd: "fit_data env r' rdf' s1' = (Inr tt, s2)" and
      fs: "fit_split env r' tt s2 = (Inr parts, s3)" and
      fp: "fit_pipeline env r' s3 = (Inr (), s4)"
      by auto
    from a assms(1-3) have same: "rdf' = rdf" "name' = name" "r' = r" "s1' = s1"
      by simp_all
    from fit_data_keeps_selection [OF fd] fit_split_keeps_selection [OF fs]
    have keep: "estimator (models s3 r) = estimator (models s1 r)"
      "reduction (models s3 r) = reduction (models s1 r)"
      "dim_reduction (models s3 r) = dim_reduction (models s1 r)"
      by (simp_all add: same)
    from fit_pipeline_builds [OF fp]
    obtain est where est: "make_estimator env (models s3 r) = Inr est"
      and red: "dim_reduction (models s3 r) \<longrightarrow> (\<exists>red. make_reduction env (models s3 r) = Inr red)"
      by (auto simp add: same)
    from assms(4) have False
    proof
      assume "\<exists>e. estimator (models s1 r) = Some e \<and> e \<notin> set algorithms"
      then obtain e where "estimator (models s3 r) = Some e" "e \<notin> set algorithms"
        using keep by auto
      from make_estimator_unknown [OF this, of env] est show False by simp
    next
      assume d: "dim_reduction (models s1 r) \<and>
                 (\<exists>e. reduction (models s1 r) = Some e \<and> e \<notin> set decomposers)"
      then obtain e where e: "reduction (models s3 r) = Some e" "e \<notin> set decomposers"
        using keep by auto
      from d keep red obtain rd where "make_reduction env (models s3 r) = Inr rd" by auto
      with make_reduction_unknown [OF e, of env] show False by simp
    qed
    then show ?thesis ..
  qed
qed


definition fit_frame :: dataframe where
  \<comment> \<open>the frame of \<open>fit_request\<close>\<close>
  "fit_frame =
     \<lparr>df_columns = [VStr ''model_name'', VStr ''n_features''],
      df_rows = [(VInt 0, [VStr ''m1'', VStr ''a|1.0|0|2.0'']),
                 (VInt 1, [VStr ''m1'', VStr ''b|3.0|1|4.0''])]\<rparr>"

definition training_pair :: "dataframe \<times> dataframe" where
  \<comment> \<open>\<^verbatim>\<open>train_test_df\<close> and \<^verbatim>\<open>target_df\<close> of \<open>fit_request\<close> for the feature definitions
      of \<open>features_request\<close>\<close>
  "training_pair =
     (\<lparr>df_columns = [VStr ''f1'', VStr ''f2''],
       df_rows = [(VInt 0, [VStr ''1.0'', VStr ''2.0'']), (VInt 1, [VStr ''3.0'', VStr ''4.0''])]\<rparr>,
      \<lparr>df_columns = [VStr ''y''],
       df_rows = [(VInt 0, [VStr ''0'']), (VInt 1, [VStr ''1''])]\<rparr>)"

definition kept_features :: dataframe where
  \<comment> \<open>the feature definitions of \<open>features_request\<close> that fit keeps\<close>
  "kept_features =
     \<lparr>df_columns = [VStr ''model_name'', VStr ''name'', VStr ''variable_type'', VStr ''data_type'',
                     VStr ''feature_strategy'', VStr ''hash_features''],
      df_rows =
        [(VStr ''f1'', [VStr ''m1'', VStr ''f1'', VStr ''feature'', VStr ''float'', VStr ''scaling'', VFloat 0]),
         (VStr ''f2'', [VStr ''m1'', VStr ''f2'', VStr ''feature'', VStr ''float'', VStr ''scaling'', VFloat 0])]\<rparr>"

definition unknown_estimator_state :: "string state" where
  \<comment> \<open>as \<open>defined_state features_request\<close>, with an estimator that is not in the registry\<close>
  "unknown_estimator_state =
     (defined_state features_request)
       \<lparr>models := (\<lambda>r. m1_model\<lparr>estimator := Some ''NoSuchEstimator''\<rparr>)\<rparr>"

definition unknown_reduction_state :: "string state" where
  \<comment> \<open>as \<open>defined_state features_request\<close>, configured with dimensionality reduction by a
      class that is not in the registry\<close>
  "unknown_reduction_state =
     (defined_state features_request)
       \<lparr>models := (\<lambda>r. m1_model\<lparr>dim_reduction := True, reduction := Some ''NoSuchReduction'',
                                 dim_reduction_args := Some []\<rparr>)\<rparr>"

definition after_data :: "string state \<Rightarrow> string state" where
  "after_data s = snd (fit_data demo_env 0 fit_frame s)"

definition after_split :: "string state \<Rightarrow> string state" where
  "after_split s = snd (fit_split demo_env 0 training_pair (after_data s))"

lemma fit_frame_simps:
  "request_df fit_request [''strData'', ''strData''] [''model_name'', ''n_features''] = Inr fit_frame"
  "loc0_str fit_frame ''model_name'' = Inr ''m1''"
  by code_simp+

lemma unknown_estimator_state_simps:
  "model_cache unknown_estimator_state = [(''m1'', 0)]"
  "estimator (models unknown_estimator_state 0) = Some ''NoSuchEstimator''"
  "fst (fit_data demo_env 0 fit_frame unknown_estimator_state) = Inr training_pair"
  "fst (fit_split demo_env 0 training_pair (after_data unknown_estimator_state)) =
     Inr (fst training_pair, fst training_pair, snd training_pair, snd training_pair)"
  "model_features (after_split unknown_estimator_state) 0 = Inr kept_features"
  "make_preprocessor demo_env (models (after_split unknown_estimator_state) 0) kept_features =
     Inr ''Preprocessor''"
  by code_simp+

lemma unknown_reduction_state_simps:
  "model_cache unknown_reduction_state = [(''m1'', 0)]"
  "dim_reduction (models unknown_reduction_state 0)"
  "reduction (models unknown_reduction_state 0) = Some ''NoSuchReduction''"
  "fst (fit_data demo_env 0 fit_frame unknown_reduction_state) = Inr training_pair"
  "fst (fit_split demo_env 0 training_pair (after_data unknown_reduction_state)) =
     Inr (fst training_pair, fst training_pair, snd training_pair, snd training_pair)"
  "model_features (after_split unknown_reduction_state) 0 = Inr kept_features"
  "make_preprocessor demo_env (models (after_split unknown_reduction_state) 0) kept_features =
     Inr ''Preprocessor''"
  "make_estimator demo_env (models (after_split unknown_reduction_state) 0) =
     Inr ''RandomForestClassifier''"
  by code_simp+

lemma not_registered:
  "''NoSuchEstimator'' \<notin> set algorithms"
  "''NoSuchReduction'' \<notin> set decomposers"
  by (simp_all add: algorithms_def decomposers_def)


subsection \<open>The rows of predict\_proba\<close>

text \<open>
  The two definitions below follow the words of the specification, not the code: a row
  of the response is a comma-separated list of pairs \<open>class: value\<close>, one for each
  class, in the order of the classes of the estimator. The value is formatted by
  \<open>format_3f\<close>, which stands for the format \<^verbatim>\<open>{:.3f}\<close> of Python.
\<close>

fun comma_separated :: "string list \<Rightarrow> string" where
  \<comment> \<open>Modelled from the spec: \<^verbatim>\<open>", ".join(ps)\<close>\<close>
  "comma_separated [] = []"
| "comma_separated [p] = p"
| "comma_separated (p # q # ps) = p @ '', '' @ comma_separated (q # ps)"

definition class_value_pairs :: "'o env \<Rightarrow> pyval list \<Rightarrow> pyval list \<Rightarrow> string list" where
  \<comment> \<open>Modelled from the spec: the pair of the i-th class and the i-th value, for each i\<close>
  "class_value_pairs env cs a = map2 (\<lambda>c b. str_of env c @ '': '' @ format_3f env b) cs a"

fun separated :: "string list \<Rightarrow> string" where
  \<comment> \<open>what the loop \<^verbatim>\<open>for b in a\<close> appends to \<^verbatim>\<open>s\<close>, for the pairs it formats\<close>
  "separated [] = []"
| "separated (p # ps) = '', '' @ p @ separated ps"

lemma drop_separator: "drop 2 (separated ps) = comma_separated ps"
proof (induction ps rule: comma_separated.induct)
  case (3 p q ps)
  have "separated (q # ps) = '', '' @ drop 2 (separated (q # ps))"
    by simp
  with 3 have "separated (q # ps) = '', '' @ comma_separated (q # ps)"
    by simp
  then have "drop 2 (separated (p # q # ps)) = p @ '', '' @ comma_separated (q # ps)"
    unfolding separated.simps(2) [of p] by simp
  then show ?case by simp
qed simp_all

lemma class_value_pairs_Cons:
  "class_value_pairs env (c # cs) (b # bs) =
     (str_of env c @ '': '' @ format_3f env b) # class_value_pairs env cs bs"
  by (simp add: class_value_pairs_def)

lemma class_value_pairs_Nil [simp]: "class_value_pairs env cs [] = []"
  by (simp add: class_value_pairs_def)

lemma length_class_value_pairs:
  "length a = length cs \<Longrightarrow> length (class_value_pairs env cs a) = length cs"
  by (simp add: class_value_pairs_def)

lemma class_label_item:
  assumes "pipe m = Some steps" and "estimation_step m = Some k"
    and "item steps k = Inr step" and "classes_of env (snd step) = Inr cs"
  shows "class_label env m i = item cs i"
  using assms by (simp add: class_label_def)

lemma proba_row_pairs:
  assumes "\<And>j. class_label env m j = item cs j"
  shows "i + length bs \<le> length cs \<Longrightarrow>
         proba_row env m i bs s =
           Inr (s @ separated (class_value_pairs env (drop i cs) bs))"
proof (induction bs arbitrary: i s)
  case Nil
  show ?case by simp
next
  case (Cons b bs)
  then have i: "i < length cs" and rest: "Suc i + length bs \<le> length cs" by simp_all
  from i have d: "drop i cs = cs ! i # drop (Suc i) cs"
    by (simp add: Cons_nth_drop_Suc)
  from i have c: "class_label env m i = Inr (cs ! i)"
    by (simp add: assms item_def)
  show ?case
    unfolding proba_row.simps c bindE_simps Cons.IH [OF rest] d class_value_pairs_Cons
    by simp
qed

lemma mapE_Inr: "(\<And>x. x \<in> set xs \<Longrightarrow> f x = Inr (g x)) \<Longrightarrow> mapE f xs = Inr (map g xs)"
  by (induction xs) simp_all

lemma probabilities_rows:
  assumes "pipe m = Some steps" and "estimation_step m = Some k"
    and "item steps k = Inr step" and "classes_of env (snd step) = Inr cs"
    and "\<forall>a\<in>set y. length a = length cs"
  shows "probabilities env m y =
           Inr (map (\<lambda>a. VStr (comma_separated (class_value_pairs env cs a))) y)"
  unfolding probabilities_def
proof (rule mapE_Inr)
  fix a
  assume "a \<in> set y"
  with assms(5) have "0 + length a \<le> length cs" by simp
  from proba_row_pairs [of env m cs 0 a "[]", OF class_label_item [OF assms(1-4)] this]
  have "proba_row env m 0 a [] = Inr (separated (class_value_pairs env cs a))"
    by simp
  then show "bindE (proba_row env m 0 a []) (\<lambda>s. Inr (VStr (drop 2 s))) =
          Inr (VStr (comma_separated (class_value_pairs env cs a)))"
    by (simp add: drop_separator)
qed

lemma predict_values_rows:
  assumes "pipe m = Some steps" and "estimation_step m = Some k"
    and "item steps k = Inr step" and "classes_of env (snd step) = Inr cs"
    and "variant = ''predict_proba'' \<and> pipe_predict_proba env steps X = Inr y \<or>
         variant = ''predict_log_proba'' \<and> pipe_predict_log_proba env steps X = Inr y"
    and "\<forall>a\<in>set y. length a = length cs"
  shows "predict_values env m variant X =
           Inr (map (\<lambda>a. VStr (comma_separated (class_value_pairs env cs a))) y)"
  using assms(5)
proof
  assume "variant = ''predict_proba'' \<and> pipe_predict_proba env steps X = Inr y"
  then show ?thesis
    by (simp add: predict_values_def assms(1) probabilities_rows [OF assms(1-4) assms(6)])
next
  assume "variant = ''predict_log_proba'' \<and> pipe_predict_log_proba env steps X = Inr y"
  then show ?thesis
    by (simp add: predict_values_def assms(1) probabilities_rows [OF assms(1-4) assms(6)])
qed

lemma single_cells:
  "map (\<lambda>(l, r). (l, [cell_at r 0])) (zip index (map (\<lambda>v. [v]) ys)) =
     zip index (map (\<lambda>v. [v]) ys)"
proof (induction index arbitrary: ys)
  case Nil
  show ?case by simp
next
  case step: (Cons l index)
  show ?case
  proof (cases ys)
    case Nil
    then show ?thesis by simp
  next
    case (Cons v vs)
    with step [of vs] show ?thesis by (simp add: cell_at_def)
  qed
qed

lemma select_result_column:
  "select_columns \<lparr>df_columns = [c], df_rows = zip index (map (\<lambda>v. [v]) ys)\<rparr> [c] =
     Inr \<lparr>df_columns = [c], df_rows = zip index (map (\<lambda>v. [v]) ys)\<rparr>"
  by (simp add: select_columns_def single_cells)


definition proba_request :: "pyval list list" where
  \<comment> \<open>two samples for the features f1 and f2 that the trained model keeps, sent from a
      chart expression\<close>
  "proba_request = [[VStr ''m1'', VStr ''1.0|2.0''], [VStr ''m1'', VStr ''3.0|4.0'']]"

definition proba_frame :: dataframe where
  "proba_frame =
     \<lparr>df_columns = [VStr ''model_name'', VStr ''n_features''],
      df_rows = [(VInt 0, [VStr ''m1'', VStr ''1.0|2.0'']), (VInt 1, [VStr ''m1'', VStr ''3.0|4.0''])]\<rparr>"

definition proba_samples :: dataframe where
  "proba_samples =
     \<lparr>df_columns = [VStr ''f1'', VStr ''f2''],
      df_rows = [(VInt 0, [VStr ''1.0'', VStr ''2.0'']), (VInt 1, [VStr ''3.0'', VStr ''4.0''])]\<rparr>"

definition trained_steps :: "(string \<times> string) list" where
  "trained_steps = [(''preprocessor'', ''Preprocessor''), (''estimator'', ''RandomForestClassifier'')]"

definition proba_values :: "pyval list list" where
  "proba_values = [[VFloat (1 / 4), VFloat (3 / 4)], [VFloat (1 / 4), VFloat (3 / 4)]]"

definition proba_response :: dataframe where
  "proba_response =
     \<lparr>df_columns = [VStr ''result''],
      df_rows = [(VInt 0, [VStr ''no: 0.250, yes: 0.750'']),
                 (VInt 1, [VStr ''no: 0.250, yes: 0.750''])]\<rparr>"

lemma proba_frame_simps:
  "request_df proba_request [''strData'', ''strData''] [''model_name'', ''n_features''] = Inr proba_frame"
  "loc0_str proba_frame ''model_name'' = Inr ''m1''"
  by code_simp+

lemma s_trained_simps:
  "map_of (model_cache s_trained) ''m1'' = Some 0"
  "fst (feature_frame demo_env 1 proba_frame 0 s_trained) = Inr proba_samples"
  "pipe (models s_trained 0) = Some trained_steps"
  "estimation_step (models s_trained 0) = Some 1"
  by code_simp+

lemma trained_steps_simps:
  "item trained_steps 1 = Inr (''estimator'', ''RandomForestClassifier'')"
  "classes_of demo_env (snd (''estimator'', ''RandomForestClassifier'')) = Inr [VStr ''no'', VStr ''yes'']"
  "pipe_predict_proba demo_env trained_steps proba_samples = Inr proba_values"
  "pipe_predict_log_proba demo_env trained_steps proba_samples = Inr proba_values"
  "length proba_values = length (df_index proba_samples)"
  by code_simp+

lemma proba_values_rows: "\<forall>a\<in>set proba_values. length a = length [VStr ''no'', VStr ''yes'']"
  by (simp add: proba_values_def)

lemma proba_response_rows:
  "\<lparr>df_columns = [VStr ''result''],
     df_rows = zip (df_index proba_samples)
       (map (\<lambda>v. [v])
          (map (\<lambda>a. VStr (comma_separated (class_value_pairs demo_env [VStr ''no'', VStr ''yes''] a)))
             proba_values))\<rparr> = proba_response"
  by code_simp


end
